theory Spec2Isabelle
  imports Main
begin

section \<open>JavaScript values, errors and string helpers\<close>

text \<open>
  The library is a single script, \<^verbatim>\<open>src/better-dom.js\<close>. Its functions take and return
  dynamically typed values, so the model has a small universe of values. A function value
  is known by its identity (a number): the library compares callbacks with \<^verbatim>\<open>===\<close>.
  \<open>VObj\<close> is a plain object literal (its own keys in insertion order), \<open>VRef\<close> a
  reference to an object the library allocated with \<^verbatim>\<open>new\<close>.
  Strings are lists of characters; the selectors, property names and event names the
  library inspects are ASCII.
\<close>

datatype jsval =
    VUndefined
  | VNull
  | VBool bool
  | VNum int
  | VStr string
  | VFun nat
  | VObj "(string \<times> jsval) list"
  | VRef nat

fun typeof :: "jsval \<Rightarrow> string" where
  "typeof VUndefined = ''undefined''"
| "typeof VNull = ''object''"
| "typeof (VBool b) = ''boolean''"
| "typeof (VNum n) = ''number''"
| "typeof (VStr s) = ''string''"
| "typeof (VFun f) = ''function''"
| "typeof (VObj kvs) = ''object''"
| "typeof (VRef r) = ''object''"

fun truthy :: "jsval \<Rightarrow> bool" where
  "truthy VUndefined = False"
| "truthy VNull = False"
| "truthy (VBool b) = b"
| "truthy (VNum n) = (n \<noteq> 0)"
| "truthy (VStr s) = (s \<noteq> [])"
| "truthy (VFun f) = True"
| "truthy (VObj kvs) = True"
| "truthy (VRef r) = True"

text \<open>
  What the script throws: \<^verbatim>\<open>throw makeError(...)\<close> throws the message string itself;
  the host throws a \<^verbatim>\<open>TypeError\<close> when a missing method is called or
  \<^verbatim>\<open>Object.keys\<close> is given \<^verbatim>\<open>null\<close>, a syntax error for a selector
  it cannot parse, and a DOM exception for a tree operation it refuses.
\<close>

datatype js_error =
    Thrown string
  | TypeError
  | SyntaxError
  | DOMException

definition makeError :: "string \<Rightarrow> string \<Rightarrow> string" where
  "makeError method type =
     (let type = (if type = [] then ''DOMElement'' else type)
      in ''Error: '' @ type @ ''.'' @ method @
         '' was called with illegal arguments. Check http://chemerisuk.github.io/better-dom/'' @
         type @ ''.html#'' @ method @ '' to verify the function call'')"

text \<open>\<^verbatim>\<open>str.split(c)\<close> for a one-character separator: the empty string gives one empty piece.\<close>

fun split_on :: "char \<Rightarrow> string \<Rightarrow> string list" where
  "split_on c [] = [[]]"
| "split_on c (x # xs) =
     (if x = c then [] # split_on c xs
      else (case split_on c xs of
              [] \<Rightarrow> [[x]]
            | w # ws \<Rightarrow> (x # w) # ws))"

text \<open>\<^verbatim>\<open>list.join(sep)\<close>.\<close>

fun join :: "string \<Rightarrow> string list \<Rightarrow> string" where
  "join sep [] = []"
| "join sep [w] = w"
| "join sep (w # v # ws) = w @ sep @ join sep (v # ws)"

text \<open>
  \<^verbatim>\<open>str.replace(pat, rep)\<close> with a string pattern: only the first occurrence is replaced.
\<close>

fun replace_first :: "string \<Rightarrow> string \<Rightarrow> string \<Rightarrow> string" where
  "replace_first pat rep [] = (if pat = [] then rep else [])"
| "replace_first pat rep (x # xs) =
     (if take (length pat) (x # xs) = pat then rep @ drop (length pat) (x # xs)
      else x # replace_first pat rep xs)"

text \<open>\<^verbatim>\<open>~str.indexOf(sub)\<close>: does \<open>sub\<close> occur in \<open>str\<close>?\<close>

fun occurs_in :: "string \<Rightarrow> string \<Rightarrow> bool" where
  "occurs_in sub [] = (sub = [])"
| "occurs_in sub (x # xs) = (take (length sub) (x # xs) = sub \<or> occurs_in sub xs)"

text \<open>A number as \<^verbatim>\<open>"" + n\<close> writes it: in decimal.\<close>

function show_nat :: "nat \<Rightarrow> string" where
  "show_nat n =
     (if n < 10 then [''0123456789'' ! n]
      else show_nat (n div 10) @ [''0123456789'' ! (n mod 10)])"
  by pat_completeness auto
termination
  by (relation "measure id") auto

declare show_nat.simps [simp del]

text \<open>The character classes of the script's regular expressions: \<^verbatim>\<open>\w\<close> and \<^verbatim>\<open>[\w\-]\<close>.\<close>

definition is_word_char :: "char \<Rightarrow> bool" where
  "is_word_char c =
     (c \<in> set ''abcdefghijklmnopqrstuvwxyzABCDEFGHIJKLMNOPQRSTUVWXYZ0123456789_'')"

definition is_name_char :: "char \<Rightarrow> bool" where
  "is_name_char c = (is_word_char c \<or> c = CHR ''-'')"

text \<open>\<^verbatim>\<open>str.toLowerCase()\<close>, on ASCII.\<close>

definition lower_char :: "char \<Rightarrow> char" where
  "lower_char c =
     (case map_of (zip ''ABCDEFGHIJKLMNOPQRSTUVWXYZ'' ''abcdefghijklmnopqrstuvwxyz'') c of
        None \<Rightarrow> c
      | Some l \<Rightarrow> l)"

definition toLowerCase :: "string \<Rightarrow> string" where
  "toLowerCase s = map lower_char s"

definition upper_char :: "char \<Rightarrow> char" where
  "upper_char c =
     (case map_of (zip ''abcdefghijklmnopqrstuvwxyz'' ''ABCDEFGHIJKLMNOPQRSTUVWXYZ'') c of
        None \<Rightarrow> c
      | Some u \<Rightarrow> u)"

definition toUpperCase :: "string \<Rightarrow> string" where
  "toUpperCase s = map upper_char s"

section \<open>Property access: \<^verbatim>\<open>DOMElement.prototype.get\<close> and \<^verbatim>\<open>set\<close>\<close>

text \<open>
  A host element, as far as the script touches it: its node name, its script-visible
  properties (\<^verbatim>\<open>el[name]\<close>, \<^verbatim>\<open>name in el\<close>), its attributes and its inline style.
\<close>

record element =
  nodeName :: string
  props :: "string \<rightharpoonup> jsval"
  attrs :: "string \<rightharpoonup> string"
  style :: "string \<rightharpoonup> jsval"

text \<open>
  A tree of nodes: the document, elements and text. The host holds several trees, the
  document's and the detached ones (the parser's sandbox, created elements), so a node is
  known by the number of its tree and its path from the root of that tree.
\<close>

datatype node =
    Document "node list"
  | Element element "node list"
  | Text string

type_synonym handle = "nat \<times> nat list"

text \<open>
  The script keeps its tables (\<^verbatim>\<open>propHooks\<close>, \<^verbatim>\<open>eventHooks\<close>, \<^verbatim>\<open>DOM._watchers\<close>)
  in plain objects, \<^verbatim>\<open>{}\<close>, and reads them by \<^verbatim>\<open>table[name]\<close>. Such a read finds
  the table's own entry under the name or else the member that every object of the host
  inherits from \<^verbatim>\<open>Object.prototype\<close> under it: \<^verbatim>\<open>constructor\<close>, \<^verbatim>\<open>toString\<close>,
  \<^verbatim>\<open>valueOf\<close>, \<^verbatim>\<open>hasOwnProperty\<close>, ..., and on some hosts \<^verbatim>\<open>__proto__\<close>. An inherited
  member is a built-in function (under \<^verbatim>\<open>__proto__\<close>, the prototype itself): it is
  truthy, it has no enumerable property of its own, and no property \<^verbatim>\<open>get\<close>,
  \<^verbatim>\<open>set\<close> or \<^verbatim>\<open>push\<close>. What the script can see of it is its \<^verbatim>\<open>name\<close> property,
  where it has a non-empty one (the function under \<^verbatim>\<open>constructor\<close> is named
  \<^verbatim>\<open>Object\<close>; a host without function names has none), and the string it converts to.
  \<open>bi_discards\<close> says that assigning a string under the name creates no own property,
  because the member is an accessor whose setter drops it (\<^verbatim>\<open>__proto__\<close>).
\<close>

record builtin =
  bi_name :: "string option"
  bi_text :: string
  bi_discards :: bool

text \<open>
  What the script takes from the host: the capability flags probed at load time
  (\<open>focusin_supported\<close> is \<^verbatim>\<open>isEventSupported("input", "focusin")\<close>,
  \<open>has_addBehavior\<close> is \<^verbatim>\<open>htmlEl.addBehavior\<close>, \<open>has_cssRules\<close> is
  \<^verbatim>\<open>styleSheet.cssRules\<close>), the vendor prefix of style properties, the
  \<^verbatim>\<open>data-htc\<close> attribute of the last script, the rules \<^verbatim>\<open>insertRule\<close> accepts, the
  clock reading \<^verbatim>\<open>new Date().getTime()\<close> at load time, the
  conversion of a value to a string, the result of calling a function value with one
  argument, the own enumerable properties of an object known by reference (what
  \<^verbatim>\<open>Object.keys\<close> and indexing give for it), the selector engine's answer whether an
  element matches a selector and which nodes under a context node match one, in
  document order (it throws on a selector it cannot parse), the nodes that markup parses
  to, the names \<^verbatim>\<open>createElement\<close> accepts, the effect of assigning
  \<^verbatim>\<open>innerHTML\<close>, and the members that a plain object inherits.
\<close>

record host =
  isW3Compliant :: bool
  isIECompliant :: bool
  hidden_in_htmlEl :: bool
  focusin_supported :: bool
  has_getElementsByClassName :: bool
  has_addBehavior :: bool
  has_cssRules :: bool
  cssPrefix :: string
  behaviorUrl :: "string option"
  insertRule_ok :: "string \<Rightarrow> bool"
  load_time :: nat
  to_str :: "jsval \<Rightarrow> string"
  call_fn :: "nat \<Rightarrow> jsval \<Rightarrow> jsval"
  own_pairs :: "nat \<Rightarrow> (string \<times> jsval) list"
  matchesSelector :: "element \<Rightarrow> string \<Rightarrow> js_error + bool"
  querySelectorAll :: "node list \<Rightarrow> handle \<Rightarrow> string \<Rightarrow> js_error + handle list"
  parse_markup :: "string \<Rightarrow> node list"
  valid_element_name :: "string \<Rightarrow> bool"
  assign_innerHTML :: "string \<Rightarrow> element \<Rightarrow> element"
  removeFirstChild :: "element \<Rightarrow> element"
  inherited :: "string \<Rightarrow> builtin option"

text \<open>
  Reading \<^verbatim>\<open>table[name]\<close> on a plain object with the given own entries, and assigning
  a string (or, for a name that is not inherited, any value) to \<^verbatim>\<open>table[name]\<close>.
\<close>

datatype 'a property = Own 'a | Inherited builtin | Absent

definition read_property :: "host \<Rightarrow> (string \<rightharpoonup> 'a) \<Rightarrow> string \<Rightarrow> 'a property" where
  "read_property h table name =
     (case table name of
        Some v \<Rightarrow> Own v
      | None \<Rightarrow> (case inherited h name of Some b \<Rightarrow> Inherited b | None \<Rightarrow> Absent))"

definition write_property :: "host \<Rightarrow> (string \<rightharpoonup> 'a) \<Rightarrow> string \<Rightarrow> 'a \<Rightarrow> (string \<rightharpoonup> 'a)" where
  "write_property h table name v =
     (if table name = None \<and> (case inherited h name of Some b \<Rightarrow> bi_discards b | None \<Rightarrow> False)
      then table
      else table(name \<mapsto> v))"

text \<open>The three hook bodies of the source; a hook entry has an optional getter and setter.\<close>

datatype hook_fn = ThrowIllegalAccess | InnerHTMLSet | HiddenSet

record prop_hook =
  hget :: "hook_fn option"
  hset :: "hook_fn option"

definition protected_keys :: "string list" where
  "protected_keys = split_on CHR '' ''
     ''children childNodes elements parentNode firstElementChild lastElementChild nextElementSibling previousElementSibling''"

definition illegal_hook :: prop_hook where
  "illegal_hook = \<lparr>hget = Some ThrowIllegalAccess, hset = Some ThrowIllegalAccess\<rparr>"

text \<open>
  The table as the script builds it: each listed key and the key with its first
  \<^verbatim>\<open>Element\<close> removed get the throwing hooks; then the two capability-dependent hooks.
\<close>

definition propHooks :: "host \<Rightarrow> string \<rightharpoonup> prop_hook" where
  "propHooks h =
     (let t0 = fold (\<lambda>key t. t(replace_first ''Element'' [] key \<mapsto> illegal_hook, key \<mapsto> illegal_hook))
                 protected_keys Map.empty;
          t1 = (if isIECompliant h then t0(''innerHTML'' \<mapsto> \<lparr>hget = None, hset = Some InnerHTMLSet\<rparr>) else t0);
          t2 = (if \<not> hidden_in_htmlEl h then t1(''hidden'' \<mapsto> \<lparr>hget = None, hset = Some HiddenSet\<rparr>) else t1)
      in t2)"

text \<open>Running a hook on an element: the error it throws, if any, and the element afterwards.\<close>

fun run_hook :: "host \<Rightarrow> hook_fn \<Rightarrow> element \<Rightarrow> jsval \<Rightarrow> js_error option \<times> element" where
  "run_hook h ThrowIllegalAccess el value = (Some (Thrown (makeError ''get'' [])), el)"
| "run_hook h InnerHTMLSet el value =
     (None, removeFirstChild h (assign_innerHTML h (''&shy;'' @ to_str h value) el))"
| "run_hook h HiddenSet el value =
     (case value of
        VBool b \<Rightarrow>
          (None, el\<lparr>props := (props el)(''hidden'' \<mapsto> VBool b),
                     attrs := (if b then (attrs el)(''hidden'' \<mapsto> ''hidden'') else (attrs el)(''hidden'' := None)),
                     style := (style el)(''zoom'' \<mapsto> VStr (if b then ''1'' else ''0''))\<rparr>)
      | _ \<Rightarrow> (Some (Thrown (makeError ''set'' [])), el))"

text \<open>
  \<^verbatim>\<open>get(name)\<close>: the hook's getter if there is one, else the property when it is truthy,
  else the attribute (\<^verbatim>\<open>null\<close> when absent). An inherited member taken for a hook has
  no getter. Reading changes nothing.
\<close>

definition DOMElement_get :: "host \<Rightarrow> element \<Rightarrow> jsval \<Rightarrow> js_error + jsval" where
  "DOMElement_get h el name =
     (case name of
        VStr n \<Rightarrow>
          (case (case read_property h (propHooks h) n of
                   Own hk \<Rightarrow> hget hk
                 | Inherited b \<Rightarrow> None
                 | Absent \<Rightarrow> None) of
             Some g \<Rightarrow> (case run_hook h g el VUndefined of
                          (Some e, _) \<Rightarrow> Inl e
                        | (None, _) \<Rightarrow> Inr VUndefined)
           | None \<Rightarrow>
               (let p = (case props el n of None \<Rightarrow> VUndefined | Some v \<Rightarrow> v)
                in if truthy p then Inr p
                   else Inr (case attrs el n of None \<Rightarrow> VNull | Some s \<Rightarrow> VStr s)))
      | _ \<Rightarrow> Inl (Thrown (makeError ''get'' [])))"

text \<open>
  The body of the \<^verbatim>\<open>forEach\<close> over the space-separated names, for one name:
  \<^verbatim>\<open>if (hook) hook.set(el, value)\<close> calls the setter of whatever the table gives, and
  the call is a \<^verbatim>\<open>TypeError\<close> when there is no setter, as for an inherited member.
\<close>

definition set_one :: "host \<Rightarrow> jsval \<Rightarrow> string \<Rightarrow> element \<Rightarrow> js_error option \<times> element" where
  "set_one h value n el =
     (case read_property h (propHooks h) n of
        Own hk \<Rightarrow> (case hset hk of
                     None \<Rightarrow> (Some TypeError, el)
                   | Some s \<Rightarrow> run_hook h s el value)
      | Inherited b \<Rightarrow> (Some TypeError, el)
      | Absent \<Rightarrow>
          if value = VNull then (None, el\<lparr>attrs := (attrs el)(n := None)\<rparr>)
          else if n \<in> dom (props el) then (None, el\<lparr>props := (props el)(n \<mapsto> value)\<rparr>)
          else (None, el\<lparr>attrs := (attrs el)(n \<mapsto> to_str h value)\<rparr>))"

fun set_each :: "host \<Rightarrow> jsval \<Rightarrow> string list \<Rightarrow> element \<Rightarrow> js_error option \<times> element" where
  "set_each h value [] el = (None, el)"
| "set_each h value (n # ns) el =
     (case set_one h value n el of
        (Some e, el') \<Rightarrow> (Some e, el')
      | (None, el') \<Rightarrow> set_each h value ns el')"

text \<open>
  \<^verbatim>\<open>set(name, value)\<close> for a string name: a function value is first called with the
  current value (read through \<^verbatim>\<open>get\<close>, which may throw), then every space-separated
  name is set in turn. A throw leaves the element as it was at that moment.
\<close>

definition set_named :: "host \<Rightarrow> string \<Rightarrow> jsval \<Rightarrow> element \<Rightarrow> js_error option \<times> element" where
  "set_named h n value el =
     (case (case value of
              VFun f \<Rightarrow> (case DOMElement_get h el (VStr n) of
                           Inl e \<Rightarrow> Inl e
                         | Inr cur \<Rightarrow> Inr (call_fn h f cur))
            | _ \<Rightarrow> Inr value) of
        Inl e \<Rightarrow> (Some e, el)
      | Inr v \<Rightarrow> set_each h v (split_on CHR '' '' n) el)"

fun set_pairs :: "host \<Rightarrow> (string \<times> jsval) list \<Rightarrow> element \<Rightarrow> js_error option \<times> element" where
  "set_pairs h [] el = (None, el)"
| "set_pairs h ((k, v) # kvs) el =
     (case set_named h k v el of
        (Some e, el') \<Rightarrow> (Some e, el')
      | (None, el') \<Rightarrow> set_pairs h kvs el')"

definition DOMElement_set :: "host \<Rightarrow> element \<Rightarrow> jsval \<Rightarrow> jsval \<Rightarrow> js_error option \<times> element" where
  "DOMElement_set h el name value =
     (case name of
        VStr n \<Rightarrow> set_named h n value el
      | VObj kvs \<Rightarrow> set_pairs h kvs el
      | VRef r \<Rightarrow> set_pairs h (own_pairs h r) el
      | VNull \<Rightarrow> (Some TypeError, el)
      | _ \<Rightarrow> (Some (Thrown (makeError ''set'' [])), el))"

text \<open>The names the table protects: the listed keys and their \<^verbatim>\<open>Element\<close>-free forms.\<close>

definition protected_names :: "string list" where
  "protected_names = protected_keys @ map (replace_first ''Element'' []) protected_keys"

section \<open>Wrappers: \<^verbatim>\<open>DOMNode\<close>, \<^verbatim>\<open>DOMElement\<close> and the null objects\<close>

text \<open>
  An event handler is a closure that \<^verbatim>\<open>createEventHandler\<close> builds: the direct
  wrapper around the callback, or the delegating wrapper that also holds the selector.
  On hosts without \<^verbatim>\<open>addEventListener\<close> a custom event gets one more closure
  around it, which filters on \<^verbatim>\<open>srcUrn\<close>. The host compares listeners by identity,
  so every closure carries the number it was created under.
\<close>

datatype handler_body =
    SimpleHandler jsval
  | DelegatingHandler jsval jsval
  | CustomEventFilter string handler_body

record handler =
  hid :: nat
  body :: handler_body

text \<open>An entry of \<^verbatim>\<open>this._events\<close>.\<close>

record event_entry =
  e_name :: string
  e_callback :: jsval
  e_capturing :: bool
  e_handler :: handler

datatype wrapper_class = DOMNode_class | DOMElement_class | DOMNullNode_class | DOMNullElement_class

text \<open>
  A wrapper object: \<^verbatim>\<open>_node\<close> (absent on the null objects), \<^verbatim>\<open>_data\<close> and
  \<^verbatim>\<open>_events\<close>. The type of node handles is a parameter.
\<close>

record 'n wrapper =
  w_class :: wrapper_class
  w_node :: "'n option"
  w_data :: "string \<rightharpoonup> jsval"
  w_events :: "event_entry list"

text \<open>
  The objects the library has allocated, by reference, and the host nodes' expando
  property \<^verbatim>\<open>__dom__\<close>, which the wrapping functions read.
\<close>

record 'n heap =
  objects :: "nat \<rightharpoonup> 'n wrapper"
  next_ref :: nat
  expando :: "'n \<Rightarrow> jsval"

definition alloc :: "'n heap \<Rightarrow> 'n wrapper \<Rightarrow> jsval \<times> 'n heap" where
  "alloc hp w =
     (VRef (next_ref hp),
      hp\<lparr>objects := (objects hp)(next_ref hp \<mapsto> w), next_ref := Suc (next_ref hp)\<rparr>)"

text \<open>
  The constructor bodies, reached through \<^verbatim>\<open>new\<close>: \<^verbatim>\<open>DOMNode\<close> stores the node and
  fresh, empty \<^verbatim>\<open>_data\<close> and \<^verbatim>\<open>_events\<close>; \<^verbatim>\<open>DOMElement\<close> calls
  \<^verbatim>\<open>DOMNode\<close>; the null constructors store \<^verbatim>\<open>null\<close>.
\<close>

definition new_wrapper :: "wrapper_class \<Rightarrow> 'n option \<Rightarrow> 'n wrapper" where
  "new_wrapper c n = \<lparr>w_class = c, w_node = n, w_data = Map.empty, w_events = []\<rparr>"

text \<open>
  \<^verbatim>\<open>DOMNode(node)\<close> and \<^verbatim>\<open>DOMElement(element)\<close> called as functions (without
  \<^verbatim>\<open>new\<close>): for a node, its \<^verbatim>\<open>__dom__\<close> if that is truthy, else a new wrapper;
  for \<^verbatim>\<open>null\<close> or \<^verbatim>\<open>undefined\<close> a new null object. Neither branch writes
  \<^verbatim>\<open>__dom__\<close>.
\<close>

definition DOMNode_wrap :: "'n heap \<Rightarrow> 'n option \<Rightarrow> jsval \<times> 'n heap" where
  "DOMNode_wrap hp node =
     (case node of
        Some n \<Rightarrow> if truthy (expando hp n) then (expando hp n, hp)
                  else alloc hp (new_wrapper DOMNode_class (Some n))
      | None \<Rightarrow> alloc hp (new_wrapper DOMNullNode_class None))"

definition DOMElement_wrap :: "'n heap \<Rightarrow> 'n option \<Rightarrow> jsval \<times> 'n heap" where
  "DOMElement_wrap hp element =
     (case element of
        Some n \<Rightarrow> if truthy (expando hp n) then (expando hp n, hp)
                  else alloc hp (new_wrapper DOMElement_class (Some n))
      | None \<Rightarrow> alloc hp (new_wrapper DOMNullElement_class None))"

text \<open>A heap with no object yet, over nodes no script has tagged.\<close>

definition fresh_heap :: "'n heap" where
  "fresh_heap = \<lparr>objects = Map.empty, next_ref = 0, expando = (\<lambda>n. VUndefined)\<rparr>"

subsection \<open>The data store: \<^verbatim>\<open>getData\<close> and \<^verbatim>\<open>setData\<close>\<close>



subsection \<open>Prototypes and method lookup\<close>

text \<open>
  A property of a prototype object is one of the library's functions (named as in the
  source), the empty function \<^verbatim>\<open>function() {}\<close>, or a plain value. A table lists an
  object's own enumerable properties in insertion order, which is the order of
  \<^verbatim>\<open>Object.keys\<close>.
\<close>

datatype member = LibFn string | NoopFn | Field jsval

type_synonym props_table = "(string \<times> member) list"

text \<open>\<^verbatim>\<open>obj[key] = value\<close>: an existing key keeps its place, a new one goes last.\<close>

fun assign :: "props_table \<Rightarrow> string \<Rightarrow> member \<Rightarrow> props_table" where
  "assign [] k v = [(k, v)]"
| "assign ((k', v') # t) k v = (if k' = k then (k, v) # t else (k', v') # assign t k v)"

definition keys :: "props_table \<Rightarrow> string list" where
  "keys t = map fst t"

text \<open>The methods of \<^verbatim>\<open>DOMNode.prototype\<close>: the object literal, then the three event methods.\<close>

definition DOMNode_methods :: "string list" where
  "DOMNode_methods =
     [''find'', ''findAll'', ''getData'', ''setData'', ''contains'', ''on'', ''off'', ''fire'']"

definition DOMNode_prototype :: props_table where
  "DOMNode_prototype = map (\<lambda>k. (k, LibFn (''DOMNode.prototype.'' @ k))) DOMNode_methods"

text \<open>
  What \<^verbatim>\<open>new DOMNode()\<close> and \<^verbatim>\<open>new DOMElement()\<close> leave on the object when called
  with no argument, as they are to make the prototypes of the subclasses.
\<close>

definition constructed_fields :: props_table where
  "constructed_fields =
     [(''_node'', Field VUndefined), (''_data'', Field (VObj [])), (''_events'', Field (VObj []))]"

text \<open>The methods assigned to \<^verbatim>\<open>DOMElement.prototype\<close>, in the order of the source.\<close>

definition DOMElement_methods :: "string list" where
  "DOMElement_methods =
     [''matches'', ''clone'', ''offset'', ''show'', ''hide'', ''toString'', ''get'', ''set'',
      ''next'', ''prev'', ''parent'', ''firstChild'', ''lastChild'', ''nextAll'', ''prevAll'',
      ''children'', ''after'', ''before'', ''prepend'', ''append'', ''replace'', ''remove'',
      ''hasClass'', ''addClass'', ''removeClass'', ''toggleClass'', ''getStyle'', ''setStyle'']"

definition DOMElement_prototype :: props_table where
  "DOMElement_prototype =
     fold (\<lambda>k t. assign t k (LibFn (''DOMElement.prototype.'' @ k))) DOMElement_methods
       constructed_fields"

text \<open>
  The null prototypes: \<^verbatim>\<open>new DOMNode()\<close> and \<^verbatim>\<open>new DOMElement()\<close>, on which the two
  \<^verbatim>\<open>forOwn\<close> loops then put \<^verbatim>\<open>function() {}\<close> under every own key of
  \<^verbatim>\<open>DOMNode.prototype\<close> and (for the null element) of \<^verbatim>\<open>DOMElement.prototype\<close>.
\<close>

definition DOMNullNode_prototype :: props_table where
  "DOMNullNode_prototype =
     fold (\<lambda>k t. assign t k NoopFn) (keys DOMNode_prototype) constructed_fields"

definition DOMNullElement_prototype :: props_table where
  "DOMNullElement_prototype =
     fold (\<lambda>k t. assign t k NoopFn) (keys DOMElement_prototype)
       (fold (\<lambda>k t. assign t k NoopFn) (keys DOMNode_prototype) constructed_fields)"

text \<open>\<^verbatim>\<open>DOMElementCollection.prototype\<close>: \<^verbatim>\<open>each\<close> and the shortcuts made by \<^verbatim>\<open>makeCollectionMethod\<close>.\<close>

definition DOMElementCollection_methods :: "string list" where
  "DOMElementCollection_methods =
     [''each'', ''on'', ''off'', ''fire'', ''setData'', ''set'', ''setStyle'', ''addClass'',
      ''removeClass'', ''toggleClass'']"

definition DOMElementCollection_prototype :: props_table where
  "DOMElementCollection_prototype =
     map (\<lambda>k. (k, LibFn (''DOMElementCollection.prototype.'' @ k))) DOMElementCollection_methods"

text \<open>
  The last step, \<^verbatim>\<open>ctr.prototype.constructor = ctr\<close>, runs after the loops above, so
  \<^verbatim>\<open>constructor\<close> is not among the keys they copy.
\<close>

definition with_constructor :: "string \<Rightarrow> props_table \<Rightarrow> props_table" where
  "with_constructor c t = assign t ''constructor'' (LibFn c)"

definition Object_prototype :: props_table where
  "Object_prototype =
     map (\<lambda>k. (k, LibFn (''Object.prototype.'' @ k)))
       [''constructor'', ''toString'', ''toLocaleString'', ''valueOf'', ''hasOwnProperty'',
        ''isPrototypeOf'', ''propertyIsEnumerable'']"

text \<open>
  The prototype chain of an instance of each class, the instance's own properties first.
  A null object's only own property is \<^verbatim>\<open>_node\<close>.
\<close>

definition DOMNode_chain :: "props_table list" where
  "DOMNode_chain = [constructed_fields, with_constructor ''DOMNode'' DOMNode_prototype, Object_prototype]"

definition DOMElement_chain :: "props_table list" where
  "DOMElement_chain =
     [constructed_fields, with_constructor ''DOMElement'' DOMElement_prototype,
      with_constructor ''DOMNode'' DOMNode_prototype, Object_prototype]"

definition DOMNullNode_chain :: "props_table list" where
  "DOMNullNode_chain =
     [[(''_node'', Field VNull)], with_constructor ''DOMNullNode'' DOMNullNode_prototype,
      with_constructor ''DOMNode'' DOMNode_prototype, Object_prototype]"

definition DOMNullElement_chain :: "props_table list" where
  "DOMNullElement_chain =
     [[(''_node'', Field VNull)], with_constructor ''DOMNullElement'' DOMNullElement_prototype,
      with_constructor ''DOMElement'' DOMElement_prototype,
      with_constructor ''DOMNode'' DOMNode_prototype, Object_prototype]"

definition DOMElementCollection_chain :: "props_table list" where
  "DOMElementCollection_chain =
     [[(''_nodes'', Field (VObj [])), (''length'', Field (VNum 0))],
      DOMElementCollection_prototype, Object_prototype]"

fun lookup_member :: "props_table list \<Rightarrow> string \<Rightarrow> member option" where
  "lookup_member [] k = None"
| "lookup_member (t # ts) k =
     (case map_of t k of
        Some m \<Rightarrow> Some m
      | None \<Rightarrow> lookup_member ts k)"

text \<open>
  A method call \<^verbatim>\<open>obj.name(args)\<close>: the empty function returns \<^verbatim>\<open>undefined\<close>
  whatever \<^verbatim>\<open>this\<close> and the arguments are; a library function is entered; a missing
  property or one that is no function makes the call a \<^verbatim>\<open>TypeError\<close>.
\<close>

datatype outcome = Returns jsval | Throws js_error | Enters string

definition call_method :: "props_table list \<Rightarrow> jsval \<Rightarrow> string \<Rightarrow> jsval list \<Rightarrow> outcome" where
  "call_method chain this k args =
     (case lookup_member chain k of
        None \<Rightarrow> Throws TypeError
      | Some NoopFn \<Rightarrow> Returns VUndefined
      | Some (LibFn f) \<Rightarrow> Enters f
      | Some (Field v) \<Rightarrow> Throws TypeError)"

text \<open>The public operations of a normal wrapper: the methods of the two prototypes.\<close>

definition public_operations :: "string list" where
  "public_operations = DOMNode_methods @ DOMElement_methods"

section \<open>Events: \<^verbatim>\<open>on\<close>, \<^verbatim>\<open>off\<close> and \<^verbatim>\<open>fire\<close>\<close>

text \<open>
  A registration the host holds for a node: the event type it was registered under, the
  handler and the capture flag. The state the three methods work on is the wrapper, the
  registrations of its node, and the number of closures created so far.
\<close>

record listener =
  l_type :: string
  l_handler :: handler
  l_capture :: bool

record 'n bound =
  b_wrapper :: "'n wrapper"
  b_listeners :: "listener list"
  b_next :: nat

text \<open>
  The host's registry. \<^verbatim>\<open>addEventListener\<close> ignores a registration it already holds
  (same type, same function, same phase); \<^verbatim>\<open>removeEventListener\<close> and
  \<^verbatim>\<open>detachEvent\<close> drop the registration of that function. Functions are compared
  by identity.
\<close>

definition same_registration :: "string \<Rightarrow> handler \<Rightarrow> bool \<Rightarrow> listener \<Rightarrow> bool" where
  "same_registration t hdl cap l = (l_type l = t \<and> hid (l_handler l) = hid hdl \<and> l_capture l = cap)"

definition addEventListener :: "string \<Rightarrow> handler \<Rightarrow> bool \<Rightarrow> listener list \<Rightarrow> listener list" where
  "addEventListener t hdl cap ls =
     (if list_ex (same_registration t hdl cap) ls then ls
      else ls @ [\<lparr>l_type = t, l_handler = hdl, l_capture = cap\<rparr>])"

definition removeEventListener :: "string \<Rightarrow> handler \<Rightarrow> bool \<Rightarrow> listener list \<Rightarrow> listener list" where
  "removeEventListener t hdl cap ls = filter (\<lambda>l. \<not> same_registration t hdl cap l) ls"

definition attachEvent :: "string \<Rightarrow> handler \<Rightarrow> listener list \<Rightarrow> listener list" where
  "attachEvent t hdl ls = ls @ [\<lparr>l_type = t, l_handler = hdl, l_capture = False\<rparr>]"

definition detachEvent :: "string \<Rightarrow> handler \<Rightarrow> listener list \<Rightarrow> listener list" where
  "detachEvent t hdl ls = filter (\<lambda>l. \<not> (l_type l = t \<and> hid (l_handler l) = hid hdl)) ls"

text \<open>
  \<^verbatim>\<open>eventHooks\<close>: \<^verbatim>\<open>focus\<close> and \<^verbatim>\<open>blur\<close> are renamed where the host has
  \<^verbatim>\<open>focusin\<close>, and captured where it has not; \<^verbatim>\<open>invalid\<close> is always captured.
\<close>

record event_hook =
  hk_name :: "string option"
  hk_capturing :: "bool option"

definition eventHooks :: "host \<Rightarrow> string \<rightharpoonup> event_hook" where
  "eventHooks h =
     (if focusin_supported h
      then [''focus'' \<mapsto> \<lparr>hk_name = Some ''focusin'', hk_capturing = None\<rparr>,
            ''blur'' \<mapsto> \<lparr>hk_name = Some ''focusout'', hk_capturing = None\<rparr>,
            ''invalid'' \<mapsto> \<lparr>hk_name = None, hk_capturing = Some True\<rparr>]
      else [''focus'' \<mapsto> \<lparr>hk_name = None, hk_capturing = Some True\<rparr>,
            ''blur'' \<mapsto> \<lparr>hk_name = None, hk_capturing = Some True\<rparr>,
            ''invalid'' \<mapsto> \<lparr>hk_name = None, hk_capturing = Some True\<rparr>])"

text \<open>
  The name and the phase that \<^verbatim>\<open>_.mixin({name: event, ..., capturing: false},
  eventHooks[event])\<close> leaves in the entry for an event type. \<^verbatim>\<open>_.mixin\<close> copies the
  enumerable own properties of its second argument, so a hook of the table overrides what
  it has, and an inherited member, which has none, overrides nothing.
\<close>

definition hooked_name :: "host \<Rightarrow> string \<Rightarrow> string" where
  "hooked_name h event =
     (case read_property h (eventHooks h) event of
        Own hk \<Rightarrow> (case hk_name hk of None \<Rightarrow> event | Some n \<Rightarrow> n)
      | Inherited b \<Rightarrow> event
      | Absent \<Rightarrow> event)"

definition hooked_capturing :: "host \<Rightarrow> string \<Rightarrow> bool" where
  "hooked_capturing h event =
     (case read_property h (eventHooks h) event of
        Own hk \<Rightarrow> (case hk_capturing hk of None \<Rightarrow> False | Some c \<Rightarrow> c)
      | Inherited b \<Rightarrow> False
      | Absent \<Rightarrow> False)"

text \<open>
  The name \<^verbatim>\<open>off\<close> and \<^verbatim>\<open>fire\<close> use: \<^verbatim>\<open>hook = eventHooks[eventType];
  if (hook && hook.name) eventType = hook.name\<close>. This reads the \<^verbatim>\<open>name\<close> property of
  whatever the table gives, so for \<^verbatim>\<open>constructor\<close> it is the name of the inherited
  function, \<^verbatim>\<open>Object\<close>, on a host whose functions have names.
\<close>

definition normalized_type :: "host \<Rightarrow> string \<Rightarrow> string" where
  "normalized_type h eventType =
     (case read_property h (eventHooks h) eventType of
        Own hk \<Rightarrow> (case hk_name hk of None \<Rightarrow> eventType | Some n \<Rightarrow> if n = [] then eventType else n)
      | Inherited b \<Rightarrow> (case bi_name b of None \<Rightarrow> eventType | Some n \<Rightarrow> if n = [] then eventType else n)
      | Absent \<Rightarrow> eventType)"

text \<open>\<^verbatim>\<open>createEventHandler\<close>: the direct wrapper when the selector is falsy, else the delegating one.\<close>

definition createEventHandler :: "jsval \<Rightarrow> jsval \<Rightarrow> handler_body" where
  "createEventHandler callback selector =
     (if \<not> truthy selector then SimpleHandler callback else DelegatingHandler callback selector)"

text \<open>
  The body of the \<^verbatim>\<open>forEach\<close> in \<^verbatim>\<open>on\<close>, for one event type of the space-separated
  list: build the entry, create the handler, register it with the host (on a host without
  \<^verbatim>\<open>addEventListener\<close>, a type with a colon is registered as \<^verbatim>\<open>dataavailable\<close>
  behind a filtering closure), and push the entry on \<^verbatim>\<open>this._events\<close>.
\<close>

definition on_type :: "host \<Rightarrow> jsval \<Rightarrow> jsval \<Rightarrow> string \<Rightarrow> 'n bound \<Rightarrow> 'n bound" where
  "on_type h callback selector event s =
     (let created = \<lparr>hid = b_next s, body = createEventHandler callback selector\<rparr>;
          entry = \<lparr>e_name = hooked_name h event, e_callback = callback,
                   e_capturing = hooked_capturing h event, e_handler = created\<rparr>
      in if isW3Compliant h then
           s\<lparr>b_wrapper := (b_wrapper s)\<lparr>w_events := w_events (b_wrapper s) @ [entry]\<rparr>,
             b_listeners := addEventListener (e_name entry) created (e_capturing entry) (b_listeners s),
             b_next := Suc (b_next s)\<rparr>
         else if CHR '':'' \<in> set event then
           (let filtering = \<lparr>hid = Suc (b_next s), body = CustomEventFilter event (body created)\<rparr>;
                entry' = entry\<lparr>e_name := ''dataavailable'', e_handler := filtering\<rparr>
            in s\<lparr>b_wrapper := (b_wrapper s)\<lparr>w_events := w_events (b_wrapper s) @ [entry']\<rparr>,
                 b_listeners := attachEvent (''on'' @ ''dataavailable'') filtering (b_listeners s),
                 b_next := Suc (Suc (b_next s))\<rparr>)
         else
           s\<lparr>b_wrapper := (b_wrapper s)\<lparr>w_events := w_events (b_wrapper s) @ [entry]\<rparr>,
             b_listeners := attachEvent (''on'' @ e_name entry) created (b_listeners s),
             b_next := Suc (b_next s)\<rparr>)"

text \<open>
  \<^verbatim>\<open>on(event, selector, callback)\<close> for a string \<open>event\<close>: a function in the second
  place is the callback; then every space-separated type is bound. Nothing checks that
  the callback is a function.
\<close>

definition on_string :: "host \<Rightarrow> 'n bound \<Rightarrow> string \<Rightarrow> jsval \<Rightarrow> jsval \<Rightarrow> 'n bound" where
  "on_string h s event selector callback =
     (let callback' = (if typeof selector = ''function'' then selector else callback);
          selector' = (if typeof selector = ''function'' then VNull else selector)
      in fold (on_type h callback' selector') (split_on CHR '' '' event) s)"

text \<open>
  \<^verbatim>\<open>on\<close>: a string is bound as above; an object binds each of its keys to its value,
  through \<^verbatim>\<open>this.on(key, event[key])\<close>; \<^verbatim>\<open>null\<close> reaches \<^verbatim>\<open>Object.keys\<close>, which
  throws; any other type is refused with \<^verbatim>\<open>makeError("on")\<close>. The result is the error
  thrown, if any, and the state afterwards.
\<close>

definition DOMNode_on :: "host \<Rightarrow> 'n bound \<Rightarrow> jsval \<Rightarrow> jsval \<Rightarrow> jsval \<Rightarrow> js_error option \<times> 'n bound" where
  "DOMNode_on h s event selector callback =
     (case event of
        VStr ev \<Rightarrow> (None, on_string h s ev selector callback)
      | VObj kvs \<Rightarrow> (None, fold (\<lambda>(k, v) s'. on_string h s' k v VUndefined) kvs s)
      | VRef r \<Rightarrow> (None, fold (\<lambda>(k, v) s'. on_string h s' k v VUndefined) (own_pairs h r) s)
      | VNull \<Rightarrow> (Some TypeError, s)
      | _ \<Rightarrow> (Some (Thrown (makeError ''on'' [])), s))"

text \<open>
  The body of the \<^verbatim>\<open>forEach\<close> in \<^verbatim>\<open>off\<close>, for one entry of \<^verbatim>\<open>this._events\<close>: a
  matching entry's handler is unregistered. The entry itself stays where it is.
\<close>

definition off_entry :: "host \<Rightarrow> string \<Rightarrow> jsval \<Rightarrow> event_entry \<Rightarrow> listener list \<Rightarrow> listener list" where
  "off_entry h eventType callback entry ls =
     (if eventType = e_name entry \<and> (\<not> truthy callback \<or> callback = e_callback entry) then
        (if isW3Compliant h then removeEventListener eventType (e_handler entry) (e_capturing entry) ls
         else detachEvent (''on'' @ eventType) (e_handler entry) ls)
      else ls)"

definition DOMNode_off :: "host \<Rightarrow> 'n bound \<Rightarrow> jsval \<Rightarrow> jsval \<Rightarrow> js_error option \<times> 'n bound" where
  "DOMNode_off h s eventType callback =
     (case eventType of
        VStr t \<Rightarrow>
          if callback \<noteq> VUndefined \<and> typeof callback \<noteq> ''function''
          then (Some (Thrown (makeError ''off'' [])), s)
          else (None, s\<lparr>b_listeners :=
                          fold (off_entry h (normalized_type h t) callback)
                            (w_events (b_wrapper s)) (b_listeners s)\<rparr>)
      | _ \<Rightarrow> (Some (Thrown (makeError ''off'' [])), s))"

text \<open>
  What a handler does when its node is the target of the event: the direct wrapper calls
  the callback (a callback that is no function cannot be called); the delegating wrapper
  walks from the target up to the bound node, exclusive, which is no step at all here; the
  filtering closure passes the event on when \<^verbatim>\<open>srcUrn\<close> is its event name. The result
  lists the callbacks called.
\<close>

fun run_handler :: "string option \<Rightarrow> handler_body \<Rightarrow> jsval list" where
  "run_handler srcUrn (SimpleHandler callback) = (if typeof callback = ''function'' then [callback] else [])"
| "run_handler srcUrn (DelegatingHandler callback selector) = []"
| "run_handler srcUrn (CustomEventFilter event inner) =
     (if srcUrn = Some event then run_handler srcUrn inner else [])"

text \<open>The host delivers an event of a type to the node: every registration of that type runs, in order.\<close>

definition dispatch :: "string \<Rightarrow> string option \<Rightarrow> listener list \<Rightarrow> jsval list" where
  "dispatch t srcUrn ls =
     concat (map (\<lambda>l. run_handler srcUrn (body (l_handler l))) (filter (\<lambda>l. l_type l = t) ls))"

text \<open>
  \<^verbatim>\<open>fire(eventType, detail)\<close>: the type is normalised through the hooks; the host with
  \<^verbatim>\<open>addEventListener\<close> dispatches an event of that type, the other one fires
  \<^verbatim>\<open>on\<close> + type, a custom event as \<^verbatim>\<open>ondataavailable\<close> with its name in
  \<^verbatim>\<open>srcUrn\<close>. The result lists the callbacks called on this node.
\<close>

definition DOMNode_fire :: "host \<Rightarrow> 'n bound \<Rightarrow> jsval \<Rightarrow> jsval \<Rightarrow> js_error + jsval list" where
  "DOMNode_fire h s eventType detail =
     (case eventType of
        VStr t \<Rightarrow>
          (let isCustomEvent = (CHR '':'' \<in> set t);
               t' = normalized_type h t
           in if isW3Compliant h then Inr (dispatch t' None (b_listeners s))
              else if isCustomEvent then Inr (dispatch (''on'' @ ''dataavailable'') (Some t') (b_listeners s))
              else Inr (dispatch (''on'' @ t') None (b_listeners s)))
      | _ \<Rightarrow> Inl (Thrown (makeError ''fire'' [])))"

text \<open>The callback a handler was made for.\<close>

fun handler_callback :: "handler_body \<Rightarrow> jsval" where
  "handler_callback (SimpleHandler callback) = callback"
| "handler_callback (DelegatingHandler callback selector) = callback"
| "handler_callback (CustomEventFilter event inner) = handler_callback inner"

text \<open>
  The type under which the host holds an entry's handler, and the state in which every
  registration of the node was made through the wrapper's \<^verbatim>\<open>on\<close>: each has its entry in
  \<^verbatim>\<open>this._events\<close>.
\<close>

definition registered_type :: "host \<Rightarrow> string \<Rightarrow> string" where
  "registered_type h n = (if isW3Compliant h then n else ''on'' @ n)"

definition registered_by :: "host \<Rightarrow> event_entry \<Rightarrow> listener \<Rightarrow> bool" where
  "registered_by h e l =
     (l_type l = registered_type h (e_name e) \<and> l_handler l = e_handler e \<and>
      l_capture l = (isW3Compliant h \<and> e_capturing e) \<and>
      handler_callback (body (e_handler e)) = e_callback e)"

definition consistent :: "host \<Rightarrow> 'n bound \<Rightarrow> bool" where
  "consistent h s = list_all (\<lambda>l. list_ex (\<lambda>e. registered_by h e l) (w_events (b_wrapper s))) (b_listeners s)"

text \<open>The type under which \<^verbatim>\<open>fire(t)\<close> has the host deliver its event.\<close>

definition fired_type :: "host \<Rightarrow> string \<Rightarrow> string" where
  "fired_type h t =
     (if isW3Compliant h then normalized_type h t
      else if CHR '':'' \<in> set t then ''on'' @ ''dataavailable''
      else ''on'' @ normalized_type h t)"

text \<open>
  The registrations of a node that are bindings of a type and a callback: those that
  \<^verbatim>\<open>on(t, callback)\<close> makes, one for every space-separated event of \<open>t\<close>. A
  registration is one for an event when it is held under the name \<^verbatim>\<open>on\<close> registers
  the event under (for a custom event on a host without \<^verbatim>\<open>addEventListener\<close>:
  under \<^verbatim>\<open>ondataavailable\<close>, by a closure that filters for the event).
\<close>

definition listens_for :: "host \<Rightarrow> string \<Rightarrow> listener \<Rightarrow> bool" where
  "listens_for h event l =
     (if isW3Compliant h then l_type l = hooked_name h event
      else if CHR '':'' \<in> set event then
        l_type l = ''on'' @ ''dataavailable'' \<and>
        (case body (l_handler l) of CustomEventFilter ev inner \<Rightarrow> ev = event | _ \<Rightarrow> False)
      else l_type l = ''on'' @ hooked_name h event)"

definition active_bindings :: "host \<Rightarrow> 'n bound \<Rightarrow> string \<Rightarrow> jsval \<Rightarrow> listener list" where
  "active_bindings h s t callback =
     filter (\<lambda>l. list_ex (\<lambda>event. listens_for h event l) (split_on CHR '' '' t) \<and>
                 handler_callback (body (l_handler l)) = callback) (b_listeners s)"

text \<open>A wrapper with no binding yet.\<close>

definition unbound :: "nat bound" where
  "unbound = \<lparr>b_wrapper = new_wrapper DOMElement_class (Some 0), b_listeners = [], b_next = 0\<rparr>"

section \<open>\<^verbatim>\<open>SelectorMatcher\<close>\<close>

text \<open>
  The groups of \<^verbatim>\<open>rquickIs = /^(\w*)(?:#([\w\-]+))?(?:\[([\w\-]+)\])?(?:\.([\w\-]+))?$/\<close>:
  the tag (a string, maybe empty) and the optional id, attribute and class. Each group is
  a maximal run of its character class and is followed by a character outside it, so the
  expression matches in one way at most and is read from left to right.
\<close>

record quick =
  q_tag :: string
  q_id :: "string option"
  q_attribute :: "string option"
  q_class :: "string option"

text \<open>An optional part: an opening character, a non-empty name, and a closing character if any.\<close>

definition optional_group :: "char \<Rightarrow> char option \<Rightarrow> string \<Rightarrow> string option \<times> string" where
  "optional_group opening closing s =
     (case s of
        [] \<Rightarrow> (None, s)
      | c # r \<Rightarrow>
          if c = opening \<and> takeWhile is_name_char r \<noteq> [] then
            (case closing of
               None \<Rightarrow> (Some (takeWhile is_name_char r), dropWhile is_name_char r)
             | Some cl \<Rightarrow>
                 (case dropWhile is_name_char r of
                    [] \<Rightarrow> (None, s)
                  | d # r' \<Rightarrow> if d = cl then (Some (takeWhile is_name_char r), r') else (None, s)))
          else (None, s))"

definition rquickIs_exec :: "string \<Rightarrow> quick option" where
  "rquickIs_exec selector =
     (let tag = takeWhile is_word_char selector;
          r1 = dropWhile is_word_char selector;
          (ident, r2) = optional_group CHR ''#'' None r1;
          (attribute, r3) = optional_group CHR ''['' (Some CHR '']'') r2;
          (cls, r4) = optional_group CHR ''.'' None r3
      in if r4 = [] then Some \<lparr>q_tag = tag, q_id = ident, q_attribute = attribute, q_class = cls\<rparr>
         else None)"

text \<open>
  The constructor: a quick selector has its tag put in lower case and its class put
  between two spaces; a selector that is not quick is refused only when \<open>quickOnly\<close> is
  set.
\<close>

record matcher =
  m_selector :: string
  m_quickOnly :: bool
  m_quick :: "quick option"

definition SelectorMatcher :: "string \<Rightarrow> bool \<Rightarrow> js_error + matcher" where
  "SelectorMatcher selector quickOnly =
     (case rquickIs_exec selector of
        Some q \<Rightarrow>
          Inr \<lparr>m_selector = selector, m_quickOnly = quickOnly,
               m_quick = Some (q\<lparr>q_tag := (if q_tag q \<noteq> [] then toLowerCase (q_tag q) else q_tag q),
                                 q_class := (case q_class q of
                                               None \<Rightarrow> None
                                             | Some c \<Rightarrow> Some ('' '' @ c @ '' ''))\<rparr>)\<rparr>
      | None \<Rightarrow>
          if quickOnly then Inl (Thrown (makeError ''quick'' []))
          else Inr \<lparr>m_selector = selector, m_quickOnly = quickOnly, m_quick = None\<rparr>)"

text \<open>
  What the test reads from the element: \<^verbatim>\<open>el.id\<close> and \<^verbatim>\<open>el.className\<close> give the
  \<^verbatim>\<open>id\<close> and \<^verbatim>\<open>class\<close> attributes as they are written, or the empty string;
  \<^verbatim>\<open>el.hasAttribute\<close> tells whether an attribute is there.
\<close>

definition el_id :: "element \<Rightarrow> string" where
  "el_id el = (case attrs el ''id'' of None \<Rightarrow> [] | Some v \<Rightarrow> v)"

definition className :: "element \<Rightarrow> string" where
  "className el = (case attrs el ''class'' of None \<Rightarrow> [] | Some v \<Rightarrow> v)"

definition hasAttribute :: "element \<Rightarrow> string \<Rightarrow> bool" where
  "hasAttribute el n = (n \<in> dom (attrs el))"

text \<open>
  \<^verbatim>\<open>test(el)\<close>: a quick selector is decided on the element itself; any other goes to
  the selector engine of the host, unless \<open>quickOnly\<close> is set. A group that is absent
  or empty is skipped.
\<close>

definition SelectorMatcher_test :: "host \<Rightarrow> matcher \<Rightarrow> element \<Rightarrow> js_error + bool" where
  "SelectorMatcher_test h m el =
     (case m_quick m of
        Some q \<Rightarrow>
          Inr ((q_tag q = [] \<or> toLowerCase (nodeName el) = q_tag q) \<and>
               (case q_id q of None \<Rightarrow> True | Some i \<Rightarrow> el_id el = i) \<and>
               (case q_attribute q of None \<Rightarrow> True | Some a \<Rightarrow> hasAttribute el a) \<and>
               (case q_class q of None \<Rightarrow> True | Some c \<Rightarrow> occurs_in c ('' '' @ className el @ '' '')))
      | None \<Rightarrow>
          if m_quickOnly m then Inr False else matchesSelector h el (m_selector m))"

text \<open>\<^verbatim>\<open>DOMElement.prototype.matches\<close> builds a matcher for the selector and tests the node.\<close>

definition DOMElement_matches :: "host \<Rightarrow> element \<Rightarrow> jsval \<Rightarrow> js_error + bool" where
  "DOMElement_matches h el selector =
     (case selector of
        VStr sel \<Rightarrow> (case SelectorMatcher sel False of
                      Inl e \<Rightarrow> Inl e
                    | Inr m \<Rightarrow> SelectorMatcher_test h m el)
      | _ \<Rightarrow> Inl (Thrown (makeError ''matches'' [])))"

text \<open>
  The same question as the specification words the structural comparison, which is also
  what a selector engine answers for a compound selector of this grammar: tag-name
  equality (an HTML tag name is compared without regard to case), id equality, attribute
  presence and class-list membership. The class list of an element is its \<^verbatim>\<open>class\<close>
  attribute split at white space: space, tab, line feed, form feed, carriage return.
\<close>

definition is_space_char :: "char \<Rightarrow> bool" where
  "is_space_char c = (c \<in> set [CHR '' '', CHR 0x09, CHR 0x0A, CHR 0x0C, CHR 0x0D])"

fun tokens :: "string \<Rightarrow> string \<Rightarrow> string list" where
  "tokens acc [] = (if acc = [] then [] else [acc])"
| "tokens acc (c # cs) =
     (if is_space_char c then (if acc = [] then tokens [] cs else acc # tokens [] cs)
      else tokens (acc @ [c]) cs)"

definition class_list :: "element \<Rightarrow> string list" where
  "class_list el = tokens [] (className el)"

definition structural_match :: "quick \<Rightarrow> element \<Rightarrow> bool" where
  "structural_match q el =
     ((q_tag q = [] \<or> toLowerCase (nodeName el) = toLowerCase (q_tag q)) \<and>
      (case q_id q of None \<Rightarrow> True | Some i \<Rightarrow> el_id el = i) \<and>
      (case q_attribute q of None \<Rightarrow> True | Some a \<Rightarrow> hasAttribute el a) \<and>
      (case q_class q of None \<Rightarrow> True | Some c \<Rightarrow> c \<in> set (class_list el)))"

text \<open>
  The class test of \<^verbatim>\<open>hasClass\<close> on a host without \<^verbatim>\<open>classList\<close>: like the quick
  test, but with \<^verbatim>\<open>rclass = /[\n\t\r]/g\<close> replaced by spaces first.
\<close>

definition replace_rclass :: "string \<Rightarrow> string" where
  "replace_rclass s = map (\<lambda>c. if c \<in> set [CHR 0x0A, CHR 0x09, CHR 0x0D] then CHR '' '' else c) s"

definition hasClass_strategy :: "element \<Rightarrow> string \<Rightarrow> bool" where
  "hasClass_strategy el cls =
     occurs_in ('' '' @ cls @ '' '') (replace_rclass ('' '' @ className el @ '' ''))"

text \<open>
  A string whose only white space is the plain space, and a string without white space.
\<close>

definition plain_spaces :: "string \<Rightarrow> bool" where
  "plain_spaces s = list_all (\<lambda>c. is_space_char c \<longrightarrow> c = CHR '' '') s"

definition spaceless :: "string \<Rightarrow> bool" where
  "spaceless s = list_all (\<lambda>c. \<not> is_space_char c) s"

text \<open>An element whose two classes are separated by a tab: \<^verbatim>\<open>class="a&#9;b"\<close>.\<close>

definition tabbed_element :: element where
  "tabbed_element =
     \<lparr>nodeName = ''DIV'', props = Map.empty,
      attrs = [''class'' \<mapsto> ''a'' @ [CHR 0x09] @ ''b''], style = Map.empty\<rparr>"

definition quick_dot_a :: quick where
  "quick_dot_a = \<lparr>q_tag = [], q_id = None, q_attribute = None, q_class = Some ''a''\<rparr>"

section \<open>The trees of the host\<close>

fun children :: "node \<Rightarrow> node list" where
  "children (Document ks) = ks"
| "children (Element e ks) = ks"
| "children (Text t) = []"

fun with_children :: "node \<Rightarrow> node list \<Rightarrow> node" where
  "with_children (Document ks) ks' = Document ks'"
| "with_children (Element e ks) ks' = Element e ks'"
| "with_children (Text t) ks' = Text t"

fun node_at :: "node \<Rightarrow> nat list \<Rightarrow> node option" where
  "node_at n [] = Some n"
| "node_at n (i # p) = (if i < length (children n) then node_at (children n ! i) p else None)"

fun update_at :: "nat list \<Rightarrow> (node \<Rightarrow> node) \<Rightarrow> node \<Rightarrow> node" where
  "update_at [] f n = f n"
| "update_at (i # p) f n =
     (if i < length (children n)
      then with_children n ((children n)[i := update_at p f (children n ! i)])
      else n)"

definition lookup :: "node list \<Rightarrow> handle \<Rightarrow> node option" where
  "lookup w hnd = (if fst hnd < length w then node_at (w ! fst hnd) (snd hnd) else None)"

definition update :: "handle \<Rightarrow> (node \<Rightarrow> node) \<Rightarrow> node list \<Rightarrow> node list" where
  "update hnd f w =
     (if fst hnd < length w then w[fst hnd := update_at (snd hnd) f (w ! fst hnd)] else w)"

text \<open>The attribute methods of an element; on other nodes there is nothing to change.\<close>

fun map_element :: "(element \<Rightarrow> element) \<Rightarrow> node \<Rightarrow> node" where
  "map_element f (Element e ks) = Element (f e) ks"
| "map_element f (Document ks) = Document ks"
| "map_element f (Text t) = Text t"

definition getAttribute :: "node list \<Rightarrow> handle \<Rightarrow> string \<Rightarrow> string option" where
  "getAttribute w hnd k =
     (case lookup w hnd of
        Some (Element e ks) \<Rightarrow> attrs e k
      | _ \<Rightarrow> None)"

definition setAttribute :: "handle \<Rightarrow> string \<Rightarrow> string \<Rightarrow> node list \<Rightarrow> node list" where
  "setAttribute hnd k v w = update hnd (map_element (\<lambda>e. e\<lparr>attrs := (attrs e)(k \<mapsto> v)\<rparr>)) w"

definition removeAttribute :: "handle \<Rightarrow> string \<Rightarrow> node list \<Rightarrow> node list" where
  "removeAttribute hnd k w = update hnd (map_element (\<lambda>e. e\<lparr>attrs := (attrs e)(k := None)\<rparr>)) w"

text \<open>
  The nodes of a tree in document order, each with its path: a node, then the subtrees
  of its children from first to last.
\<close>

fun subtree :: "nat list \<Rightarrow> node \<Rightarrow> (nat list \<times> node) list"
  and subtrees :: "nat list \<Rightarrow> nat \<Rightarrow> node list \<Rightarrow> (nat list \<times> node) list" where
  "subtree p (Document ks) = (p, Document ks) # subtrees p 0 ks"
| "subtree p (Element e ks) = (p, Element e ks) # subtrees p 0 ks"
| "subtree p (Text t) = [(p, Text t)]"
| "subtrees p i [] = []"
| "subtrees p i (k # ks) = subtree (p @ [i]) k @ subtrees p (Suc i) ks"

definition descendants :: "node list \<Rightarrow> handle \<Rightarrow> (handle \<times> node) list" where
  "descendants w hnd =
     (case lookup w hnd of
        None \<Rightarrow> []
      | Some n \<Rightarrow> map (\<lambda>(q, m). ((fst hnd, q), m)) (subtrees (snd hnd) 0 (children n)))"

fun is_element_with :: "(element \<Rightarrow> bool) \<Rightarrow> node \<Rightarrow> bool" where
  "is_element_with P (Element e ks) = P e"
| "is_element_with P (Document ks) = False"
| "is_element_with P (Text t) = False"

text \<open>
  The host's lookups. A tag name is compared without regard to case; a class name must
  be in the element's class list; \<^verbatim>\<open>getElementById\<close> searches the document, which is
  tree 0, and gives the first element with that id.
\<close>

definition getElementsByTagName :: "node list \<Rightarrow> handle \<Rightarrow> string \<Rightarrow> handle list" where
  "getElementsByTagName w hnd tag =
     map fst (filter (\<lambda>(q, m). is_element_with (\<lambda>e. toLowerCase (nodeName e) = toLowerCase tag) m)
                (descendants w hnd))"

definition getElementsByClassName :: "node list \<Rightarrow> handle \<Rightarrow> string \<Rightarrow> handle list" where
  "getElementsByClassName w hnd cls =
     map fst (filter (\<lambda>(q, m). is_element_with (\<lambda>e. cls \<in> set (class_list e)) m)
                (descendants w hnd))"

definition getElementById :: "node list \<Rightarrow> string \<Rightarrow> handle option" where
  "getElementById w ident =
     (case filter (\<lambda>(q, m). is_element_with (\<lambda>e. attrs e ''id'' = Some ident) m)
             (descendants w (0, [])) of
        [] \<Rightarrow> None
      | (q, m) # rest \<Rightarrow> Some q)"

definition is_document :: "handle \<Rightarrow> bool" where
  "is_document hnd = (hnd = (0, []))"

definition parentNode :: "handle \<Rightarrow> handle option" where
  "parentNode hnd = (if snd hnd = [] then None else Some (fst hnd, butlast (snd hnd)))"

text \<open>\<^verbatim>\<open>parent.contains(child)\<close>: the child is the parent or below it.\<close>

definition containsElement :: "handle \<Rightarrow> handle \<Rightarrow> bool" where
  "containsElement parent child =
     (fst parent = fst child \<and> take (length (snd parent)) (snd child) = snd parent)"

text \<open>The text below a node, in document order.\<close>

definition textContent :: "node \<Rightarrow> string" where
  "textContent n = concat (map (\<lambda>(q, m). case m of Text t \<Rightarrow> t | _ \<Rightarrow> []) (subtree [] n))"

section \<open>\<^verbatim>\<open>DOMNode.prototype.find\<close> and \<^verbatim>\<open>findAll\<close>\<close>

text \<open>
  \<^verbatim>\<open>rquickExpr = /^(?:#([\w\-]+)|(\w+)|\.([\w\-]+))$/\<close>; the class alternative is
  there only on a host with \<^verbatim>\<open>getElementsByClassName\<close>.
\<close>

datatype quick_expr = QuickId string | QuickTag string | QuickClass string

definition rquickExpr_exec :: "host \<Rightarrow> string \<Rightarrow> quick_expr option" where
  "rquickExpr_exec h selector =
     (case selector of
        [] \<Rightarrow> None
      | c # r \<Rightarrow>
          if c = CHR ''#'' \<and> r \<noteq> [] \<and> list_all is_name_char r then Some (QuickId r)
          else if list_all is_word_char selector then Some (QuickTag selector)
          else if has_getElementsByClassName h \<and> c = CHR ''.'' \<and> r \<noteq> [] \<and> list_all is_name_char r
          then Some (QuickClass r)
          else None)"

text \<open>
  \<^verbatim>\<open>rsibling = /[\x20\t\r\n\f]*[+~>]/\<close> is tested anywhere in the selector, and the
  white space before the combinator may be empty: the test asks for a combinator.
  \<^verbatim>\<open>rescape = /'|\\/g\<close> puts a backslash before every quote and backslash.
\<close>

definition rsibling_test :: "string \<Rightarrow> bool" where
  "rsibling_test selector = list_ex (\<lambda>c. c \<in> set ''+~>'') selector"

definition escape_id :: "string \<Rightarrow> string" where
  "escape_id old = concat (map (\<lambda>c. if c = CHR 0x27 \<or> c = CHR 0x5C then [CHR 0x5C, c] else [c]) old)"

definition tmpId :: "host \<Rightarrow> string" where
  "tmpId h = ''DOM'' @ show_nat (load_time h)"

text \<open>The attribute selector put before every branch, and the selector so scoped.\<close>

definition id_prefix :: "string \<Rightarrow> string" where
  "id_prefix nid = ''[id='' @ [CHR 0x27] @ nid @ [CHR 0x27] @ ''] ''"

definition scoped_selector :: "string \<Rightarrow> string \<Rightarrow> string" where
  "scoped_selector nid selector =
     id_prefix nid @ join ('','' @ id_prefix nid) (split_on CHR '','' selector)"

text \<open>
  What \<^verbatim>\<open>find\<close> has in \<^verbatim>\<open>elements\<close> when it returns: nothing (\<^verbatim>\<open>undefined\<close>), one
  node or none (\<^verbatim>\<open>elements[0]\<close>, the result of \<^verbatim>\<open>querySelector\<close>), or a list.
\<close>

datatype elements = NoElements | Single "handle option" | Many "handle list"

definition first_of :: "handle list \<Rightarrow> handle option" where
  "first_of l = (case l of [] \<Rightarrow> None | x # xs \<Rightarrow> Some x)"

text \<open>The quick branch: by id in the document, by tag or by class under the node.\<close>

definition quick_elements :: "node list \<Rightarrow> handle \<Rightarrow> quick_expr \<Rightarrow> handle list option" where
  "quick_elements w hnd q =
     (case q of
        QuickId m \<Rightarrow>
          (case getElementById w m of
             None \<Rightarrow> None
           | Some elem \<Rightarrow>
               if parentNode elem \<noteq> None \<and> getAttribute w elem ''id'' = Some m \<and>
                  (is_document hnd \<or> containsElement hnd elem)
               then Some [elem] else None)
      | QuickTag t \<Rightarrow> Some (getElementsByTagName w hnd t)
      | QuickClass m \<Rightarrow> Some (getElementsByClassName w hnd m))"

text \<open>\<^verbatim>\<open>context[multiple ? "querySelectorAll" : "querySelector"](selector)\<close>.\<close>

definition run_query :: "host \<Rightarrow> node list \<Rightarrow> handle \<Rightarrow> string \<Rightarrow> bool \<Rightarrow> js_error + elements" where
  "run_query h w context selector multiple =
     (case querySelectorAll h w context selector of
        Inl e \<Rightarrow> Inl e
      | Inr l \<Rightarrow> Inr (if multiple then Many l else Single (first_of l)))"

text \<open>
  The generic branch on a node that is not the document: the node's id, or the temporary
  one it is given when it has none (an empty id counts as none), scopes every branch of
  the selector; the query runs on the node, or on its parent when the selector has a
  combinator; then, whether the query returned or threw, the id is removed if the node
  had none. The result is what the query gave and the trees afterwards.
\<close>

definition scoped_query :: "host \<Rightarrow> node list \<Rightarrow> handle \<Rightarrow> string \<Rightarrow> bool \<Rightarrow> (js_error + elements) \<times> node list" where
  "scoped_query h w hnd selector multiple =
     (let old = getAttribute w hnd ''id'';
          had_id = (case old of None \<Rightarrow> False | Some v \<Rightarrow> v \<noteq> []);
          nid = (case old of None \<Rightarrow> tmpId h | Some v \<Rightarrow> if v \<noteq> [] then escape_id v else tmpId h);
          w1 = (if had_id then w else setAttribute hnd ''id'' (tmpId h) w);
          context = (case parentNode hnd of
                       None \<Rightarrow> hnd
                     | Some par \<Rightarrow> if rsibling_test selector then par else hnd);
          result = run_query h w1 context (scoped_selector nid selector) multiple;
          w2 = (if \<not> had_id then removeAttribute hnd ''id'' w1 else w1)
      in (result, w2))"

text \<open>
  The body of \<^verbatim>\<open>find(selector, multiple)\<close> up to its last line, for a wrapper of the
  node \<open>hnd\<close>: the elements found and the trees afterwards.
\<close>

definition find_elements :: "host \<Rightarrow> node list \<Rightarrow> handle \<Rightarrow> jsval \<Rightarrow> bool \<Rightarrow> (js_error + elements) \<times> node list" where
  "find_elements h w hnd selector multiple =
     (case selector of
        VStr sel \<Rightarrow>
          (case rquickExpr_exec h sel of
             Some q \<Rightarrow>
               (case quick_elements w hnd q of
                  None \<Rightarrow> (Inr NoElements, w)
                | Some l \<Rightarrow> (Inr (if multiple then Many l else Single (first_of l)), w))
           | None \<Rightarrow>
               if is_document hnd then (run_query h w hnd sel multiple, w)
               else (case lookup w hnd of
                       Some (Element e ks) \<Rightarrow> scoped_query h w hnd sel multiple
                     | _ \<Rightarrow> (Inl TypeError, w)))
      | _ \<Rightarrow> (Inl (Thrown (makeError ''find'' [])), w))"

text \<open>
  \<^verbatim>\<open>new DOMElementCollection(elements)\<close> wraps every element, in order, with
  \<^verbatim>\<open>DOMElement\<close>; on \<^verbatim>\<open>undefined\<close> its \<^verbatim>\<open>_.map\<close> throws.
\<close>

record collection =
  c_nodes :: "jsval list"
  c_length :: nat

fun wrap_all :: "handle heap \<Rightarrow> handle list \<Rightarrow> jsval list \<times> handle heap" where
  "wrap_all hp [] = ([], hp)"
| "wrap_all hp (x # xs) =
     (case DOMElement_wrap hp (Some x) of
        (r, hp') \<Rightarrow> (case wrap_all hp' xs of (rs, hp'') \<Rightarrow> (r # rs, hp'')))"

definition DOMElementCollection_new :: "handle heap \<Rightarrow> handle list \<Rightarrow> collection \<times> handle heap" where
  "DOMElementCollection_new hp l =
     (case wrap_all hp l of (rs, hp') \<Rightarrow> (\<lparr>c_nodes = rs, c_length = length rs\<rparr>, hp'))"

text \<open>What \<^verbatim>\<open>find\<close>, \<^verbatim>\<open>findAll\<close> and \<^verbatim>\<open>create\<close> return: a wrapper or a collection.\<close>

datatype wrapped = AWrapper jsval | ACollection collection

text \<open>
  The last line of \<^verbatim>\<open>find\<close>:
  \<^verbatim>\<open>multiple ? new DOMElementCollection(elements) : DOMElement(elements)\<close>.
\<close>

definition wrap_elements :: "handle heap \<Rightarrow> elements \<Rightarrow> bool \<Rightarrow> (js_error + wrapped) \<times> handle heap" where
  "wrap_elements hp els multiple =
     (case els of
        NoElements \<Rightarrow>
          if multiple then (Inl TypeError, hp)
          else (case DOMElement_wrap hp None of (r, hp') \<Rightarrow> (Inr (AWrapper r), hp'))
      | Single x \<Rightarrow> (case DOMElement_wrap hp x of (r, hp') \<Rightarrow> (Inr (AWrapper r), hp'))
      | Many l \<Rightarrow> (case DOMElementCollection_new hp l of (c, hp') \<Rightarrow> (Inr (ACollection c), hp')))"

definition DOMNode_find ::
  "host \<Rightarrow> node list \<Rightarrow> handle heap \<Rightarrow> handle \<Rightarrow> jsval \<Rightarrow> bool \<Rightarrow> (js_error + wrapped) \<times> node list \<times> handle heap" where
  "DOMNode_find h w hp hnd selector multiple =
     (case find_elements h w hnd selector multiple of
        (Inl e, w') \<Rightarrow> (Inl e, w', hp)
      | (Inr els, w') \<Rightarrow> (case wrap_elements hp els multiple of (r, hp') \<Rightarrow> (r, w', hp')))"

definition DOMNode_findAll ::
  "host \<Rightarrow> node list \<Rightarrow> handle heap \<Rightarrow> handle \<Rightarrow> jsval \<Rightarrow> (js_error + wrapped) \<times> node list \<times> handle heap" where
  "DOMNode_findAll h w hp hnd selector = DOMNode_find h w hp hnd selector True"

section \<open>\<^verbatim>\<open>DOM.create\<close>\<close>

text \<open>
  The sandbox is a detached \<^verbatim>\<open>body\<close> element, tree 1 of the host.
  \<^verbatim>\<open>sandbox.parse(html)\<close> assigns \<^verbatim>\<open>"shy;" + html\<close> to its \<^verbatim>\<open>innerHTML\<close>, removes
  the first child and returns \<^verbatim>\<open>el.children\<close>, the children that are elements.
\<close>

definition sandbox_index :: nat where
  "sandbox_index = 1"

fun element_children :: "nat \<Rightarrow> node list \<Rightarrow> handle list" where
  "element_children i [] = []"
| "element_children i (k # ks) =
     (if is_element_with (\<lambda>e. True) k then (sandbox_index, [i]) # element_children (Suc i) ks
      else element_children (Suc i) ks)"

definition sandbox_parse :: "host \<Rightarrow> node list \<Rightarrow> string \<Rightarrow> (js_error + handle list) \<times> node list" where
  "sandbox_parse h w html =
     (case parse_markup h (''shy;'' @ html) of
        [] \<Rightarrow> (Inl DOMException, update (sandbox_index, []) (\<lambda>n. with_children n []) w)
      | first # kids \<Rightarrow>
          (Inr (element_children 0 kids), update (sandbox_index, []) (\<lambda>n. with_children n kids) w))"

text \<open>
  What \<^verbatim>\<open>create\<close> is given: a string, a native element, or a value that is neither.
  A string that starts with \<^verbatim>\<open><\<close> is markup and gives a collection of its top
  elements; any other string is a tag name for \<^verbatim>\<open>document.createElement\<close>, whose new
  element is a tree of its own.
\<close>

datatype content = CString string | CElement handle | COther jsval

definition createElement :: "host \<Rightarrow> node list \<Rightarrow> string \<Rightarrow> (js_error + handle) \<times> node list" where
  "createElement h w tag =
     (if valid_element_name h tag
      then (Inr (length w, []),
            w @ [Element \<lparr>nodeName = toUpperCase tag, props = Map.empty, attrs = Map.empty, style = Map.empty\<rparr> []])
      else (Inl DOMException, w))"

definition DOM_create ::
  "host \<Rightarrow> node list \<Rightarrow> handle heap \<Rightarrow> content \<Rightarrow> (js_error + wrapped) \<times> node list \<times> handle heap" where
  "DOM_create h w hp c =
     (case c of
        CString s \<Rightarrow>
          (if take 1 s = ''<'' then
             (case sandbox_parse h w s of
                (Inl e, w') \<Rightarrow> (Inl e, w', hp)
              | (Inr l, w') \<Rightarrow>
                  (case DOMElementCollection_new hp l of (col, hp') \<Rightarrow> (Inr (ACollection col), w', hp')))
           else
             (case createElement h w s of
                (Inl e, w') \<Rightarrow> (Inl e, w', hp)
              | (Inr elem, w') \<Rightarrow>
                  (case DOMElement_wrap hp (Some elem) of (r, hp') \<Rightarrow> (Inr (AWrapper r), w', hp'))))
      | CElement elem \<Rightarrow>
          (case DOMElement_wrap hp (Some elem) of (r, hp') \<Rightarrow> (Inr (AWrapper r), w, hp'))
      | COther v \<Rightarrow> (Inl (Thrown (makeError ''create'' ''DOM'')), w, hp))"

section \<open>\<^verbatim>\<open>DOM.importStyles\<close> and \<^verbatim>\<open>DOM.watch\<close>\<close>

text \<open>
  A rule of the style sheet, as it was registered: the text given to \<^verbatim>\<open>insertRule\<close>,
  or the selector and the declarations given to \<^verbatim>\<open>addRule\<close>.
\<close>

datatype css_rule = InsertedRule string | AddedRule string string

text \<open>
  \<^verbatim>\<open>process(selector, styles)\<close>: the declarations are the pairs of an object, each
  written \<^verbatim>\<open>name:value; \<close>, or the string as it is; the rule goes to the end of the
  sheet by \<^verbatim>\<open>insertRule\<close>, or by one \<^verbatim>\<open>addRule\<close> for every comma-separated selector.
  The result is the error thrown, if any, and the sheet afterwards.
\<close>

definition declarations :: "host \<Rightarrow> (string \<times> jsval) list \<Rightarrow> string" where
  "declarations h kvs = concat (map (\<lambda>(k, v). k @ '':'' @ to_str h v @ ''; '') kvs)"

definition add_rules :: "host \<Rightarrow> css_rule list \<Rightarrow> string \<Rightarrow> string \<Rightarrow> js_error option \<times> css_rule list" where
  "add_rules h sheet selector ruleText =
     (if has_cssRules h then
        (if insertRule_ok h (selector @ '' {'' @ ruleText @ ''}'')
         then (None, sheet @ [InsertedRule (selector @ '' {'' @ ruleText @ ''}'')])
         else (Some DOMException, sheet))
      else (None, sheet @ map (\<lambda>sel. AddedRule sel ruleText) (split_on CHR '','' selector)))"

definition process :: "host \<Rightarrow> css_rule list \<Rightarrow> string \<Rightarrow> jsval \<Rightarrow> js_error option \<times> css_rule list" where
  "process h sheet selector styles =
     (case styles of
        VObj kvs \<Rightarrow> add_rules h sheet selector (declarations h kvs)
      | VRef r \<Rightarrow> add_rules h sheet selector (declarations h (own_pairs h r))
      | VNull \<Rightarrow> (Some TypeError, sheet)
      | VStr t \<Rightarrow> add_rules h sheet selector t
      | _ \<Rightarrow> (Some (Thrown (makeError ''importStyles'' ''DOM'')), sheet))"

text \<open>
  \<^verbatim>\<open>importStyles\<close>: with a string in the first place, one rule from the selector and
  the styles; with an object there, one rule from every argument, each an object whose
  first key is the selector (\<^verbatim>\<open>Object.keys\<close> throws on a value that is no object; a
  value without keys gives no selector and no styles, which \<^verbatim>\<open>process\<close> refuses). A
  throw leaves the rules registered before it.
\<close>

fun import_rules :: "host \<Rightarrow> css_rule list \<Rightarrow> jsval list \<Rightarrow> js_error option \<times> css_rule list" where
  "import_rules h sheet [] = (None, sheet)"
| "import_rules h sheet (rule # rules) =
     (case (case rule of
              VObj [] \<Rightarrow> (Some (Thrown (makeError ''importStyles'' ''DOM'')), sheet)
            | VObj ((k, v) # kvs) \<Rightarrow> process h sheet k v
            | VRef r \<Rightarrow> (case own_pairs h r of
                           [] \<Rightarrow> (Some (Thrown (makeError ''importStyles'' ''DOM'')), sheet)
                         | (k, v) # kvs \<Rightarrow> process h sheet k v)
            | VFun f \<Rightarrow> (Some (Thrown (makeError ''importStyles'' ''DOM'')), sheet)
            | _ \<Rightarrow> (Some TypeError, sheet)) of
        (Some e, sheet') \<Rightarrow> (Some e, sheet')
      | (None, sheet') \<Rightarrow> import_rules h sheet' rules)"

definition DOM_importStyles :: "host \<Rightarrow> css_rule list \<Rightarrow> jsval list \<Rightarrow> js_error option \<times> css_rule list" where
  "DOM_importStyles h sheet args =
     (case args of
        [] \<Rightarrow> (Some (Thrown (makeError ''importStyles'' ''DOM'')), sheet)
      | selector # rest \<Rightarrow>
          (case selector of
             VStr sel \<Rightarrow> process h sheet sel (case rest of [] \<Rightarrow> VUndefined | styles # others \<Rightarrow> styles)
           | _ \<Rightarrow>
               if typeof selector = ''object'' then import_rules h sheet args
               else (Some (Thrown (makeError ''importStyles'' ''DOM'')), sheet)))"

text \<open>
  A listener that \<^verbatim>\<open>watch\<close> puts on the document: the event name, and the animation
  name and the callback its closure holds.
\<close>

record start_listener =
  sl_event :: string
  sl_animation :: string
  sl_callback :: jsval

text \<open>
  The page as \<^verbatim>\<open>watch\<close> sees it: \<^verbatim>\<open>DOM._watchers\<close>, the style sheet, the listeners
  on the document, the trees and the wrappers, and the calls of callbacks made so far
  (the callback and the wrapper it was given). What is stored under a selector depends on
  the branch chosen at load time: a list of callbacks on a host with \<^verbatim>\<open>addBehavior\<close>, a
  string of animation names on any other.
\<close>

record 'e page =
  pg_watchers :: "string \<rightharpoonup> 'e"
  pg_styleSheet :: "css_rule list"
  pg_listeners :: "start_listener list"
  pg_trees :: "node list"
  pg_heap :: "handle heap"
  pg_called :: "(jsval \<times> jsval) list"

text \<open>
  The function that \<^verbatim>\<open>DOM.watch\<close> is on a host with \<^verbatim>\<open>addBehavior\<close>. It reads
  \<^verbatim>\<open>entry = DOM._watchers[selector]\<close>. A selector already watched has the callback
  pushed on its list, and the callback is called for every element that
  \<^verbatim>\<open>DOM.findAll(selector)\<close> finds; a new selector gets a list of its own and one style
  rule with the behaviour. For a selector that names an inherited member, the member is
  taken for the list, and \<^verbatim>\<open>entry.push(callback)\<close> is a \<^verbatim>\<open>TypeError\<close>.
\<close>

definition behavior_url :: "host \<Rightarrow> string" where
  "behavior_url h = ''url('' @ (case behaviorUrl h of None \<Rightarrow> ''null'' | Some u \<Rightarrow> u) @ '')''"

definition DOM_watch_behavior :: "host \<Rightarrow> (jsval list) page \<Rightarrow> string \<Rightarrow> jsval \<Rightarrow> js_error option \<times> (jsval list) page" where
  "DOM_watch_behavior h pg selector callback =
     (case read_property h (pg_watchers pg) selector of
        Own entry \<Rightarrow>
          (let pg1 = pg\<lparr>pg_watchers := (pg_watchers pg)(selector \<mapsto> entry @ [callback])\<rparr>
           in case DOMNode_findAll h (pg_trees pg1) (pg_heap pg1) (0, []) (VStr selector) of
                (Inl e, w', hp') \<Rightarrow> (Some e, pg1\<lparr>pg_trees := w', pg_heap := hp'\<rparr>)
              | (Inr (AWrapper r), w', hp') \<Rightarrow> (Some TypeError, pg1\<lparr>pg_trees := w', pg_heap := hp'\<rparr>)
              | (Inr (ACollection c), w', hp') \<Rightarrow>
                  if c_nodes c \<noteq> [] \<and> typeof callback \<noteq> ''function''
                  then (Some TypeError, pg1\<lparr>pg_trees := w', pg_heap := hp'\<rparr>)
                  else (None, pg1\<lparr>pg_trees := w', pg_heap := hp',
                                   pg_called := pg_called pg1 @ map (\<lambda>n. (callback, n)) (c_nodes c)\<rparr>))
      | Inherited b \<Rightarrow> (Some TypeError, pg)
      | Absent \<Rightarrow>
          (let pg1 = pg\<lparr>pg_watchers := (pg_watchers pg)(selector \<mapsto> [callback])\<rparr>
           in case DOM_importStyles h (pg_styleSheet pg1)
                     [VStr selector, VObj [(''behavior'', VStr (behavior_url h))]] of
                (e, sheet) \<Rightarrow> (e, pg1\<lparr>pg_styleSheet := sheet\<rparr>)))"

text \<open>
  The function that \<^verbatim>\<open>DOM.watch\<close> is on any other host. Every call makes an animation
  name from the clock, registers a keyframes rule for it and a rule for the selector that
  names all the animations of the selector so far, puts three listeners on the document
  by \<^verbatim>\<open>document.addEventListener\<close> (a \<^verbatim>\<open>TypeError\<close> where the document has none),
  and stores the names under the selector. The names so far are
  \<^verbatim>\<open>DOM._watchers[selector] || animationName\<close>: for a selector that names an inherited
  member they are that member, which the \<^verbatim>\<open>+=\<close> converts to a string.
\<close>

definition startNames :: "string list" where
  "startNames = [''animationstart'', ''oAnimationStart'', ''webkitAnimationStart'']"

definition keyframes_selector :: "host \<Rightarrow> string \<Rightarrow> string" where
  "keyframes_selector h animationName = ''@'' @ cssPrefix h @ ''keyframes '' @ animationName"

definition keyframes_body :: string where
  "keyframes_body = ''from { clip: rect(1px, auto, auto, auto) } to { clip: rect(0px, auto, auto, auto) }''"

definition animation_styles :: "host \<Rightarrow> string \<Rightarrow> string" where
  "animation_styles h allAnimationNames =
     cssPrefix h @ ''animation-duration:0.001s;'' @ cssPrefix h @ ''animation-name:'' @
     allAnimationNames @ '' !important''"

definition DOM_watch_animation :: "host \<Rightarrow> nat \<Rightarrow> string page \<Rightarrow> string \<Rightarrow> jsval \<Rightarrow> js_error option \<times> string page" where
  "DOM_watch_animation h now pg selector callback =
     (let animationName = ''DOM'' @ show_nat now;
          stored = (case read_property h (pg_watchers pg) selector of
                      Own names \<Rightarrow> if names = [] then Inl animationName else Inl names
                    | Inherited b \<Rightarrow> Inr b
                    | Absent \<Rightarrow> Inl animationName)
      in case DOM_importStyles h (pg_styleSheet pg)
                [VStr (keyframes_selector h animationName), VStr keyframes_body] of
           (Some e, sheet1) \<Rightarrow> (Some e, pg\<lparr>pg_styleSheet := sheet1\<rparr>)
         | (None, sheet1) \<Rightarrow>
             (let allAnimationNames =
                    (case stored of
                       Inl names \<Rightarrow>
                         if names \<noteq> animationName then names @ '','' @ animationName else names
                     | Inr b \<Rightarrow> bi_text b @ '','' @ animationName)
              in case DOM_importStyles h sheet1
                        [VStr selector, VStr (animation_styles h allAnimationNames)] of
                   (Some e, sheet2) \<Rightarrow> (Some e, pg\<lparr>pg_styleSheet := sheet2\<rparr>)
                 | (None, sheet2) \<Rightarrow>
                     if \<not> isW3Compliant h then (Some TypeError, pg\<lparr>pg_styleSheet := sheet2\<rparr>)
                     else
                       (None, pg\<lparr>pg_styleSheet := sheet2,
                                 pg_listeners := pg_listeners pg @
                                   map (\<lambda>n. \<lparr>sl_event = n, sl_animation = animationName,
                                             sl_callback = callback\<rparr>) startNames,
                                 pg_watchers :=
                                   write_property h (pg_watchers pg) selector allAnimationNames\<rparr>)))"


text \<open>A page on which nothing is watched yet, for either branch.\<close>

definition blank_page :: "'e page" where
  "blank_page =
     \<lparr>pg_watchers = Map.empty, pg_styleSheet = [], pg_listeners = [],
      pg_trees = [Document []], pg_heap = fresh_heap, pg_called = []\<rparr>"

section \<open>Concrete inputs\<close>

text \<open>
  The members that a plain object inherits on a host whose functions have names: the
  function \<^verbatim>\<open>Object\<close> under \<^verbatim>\<open>constructor\<close>, and under every other name of
  \<^verbatim>\<open>Object.prototype\<close> the built-in function of that name.
\<close>

definition native_function :: "string \<Rightarrow> builtin" where
  "native_function n =
     \<lparr>bi_name = Some n, bi_text = ''function '' @ n @ ''() { [native code] }'', bi_discards = False\<rparr>"

definition Object_members :: "string \<Rightarrow> builtin option" where
  "Object_members =
     map_of (map (\<lambda>k. (k, native_function (if k = ''constructor'' then ''Object'' else k)))
               (map fst Object_prototype))"

text \<open>A concrete host and element, used where a property is evaluated at an input.\<close>

definition example_host :: host where
  "example_host =
     \<lparr>isW3Compliant = True, isIECompliant = False, hidden_in_htmlEl = True,
      focusin_supported = False,
      has_getElementsByClassName = True,
      has_addBehavior = False,
      has_cssRules = True,
      cssPrefix = ''-webkit-'',
      behaviorUrl = None,
      insertRule_ok = (\<lambda>r. True),
      load_time = 1370000000000,
      to_str = (\<lambda>v. case v of VStr s \<Rightarrow> s | _ \<Rightarrow> ''value''),
      call_fn = (\<lambda>f v. v),
      own_pairs = (\<lambda>r. []),
      matchesSelector = (\<lambda>el sel. Inl SyntaxError),
      querySelectorAll = (\<lambda>w ctx sel. Inr []),
      parse_markup = (\<lambda>s. [Text s]),
      valid_element_name = (\<lambda>s. s \<noteq> [] \<and> list_all is_word_char s),
      assign_innerHTML = (\<lambda>s el. el),
      removeFirstChild = (\<lambda>el. el),
      inherited = Object_members\<rparr>"

definition example_element :: element where
  "example_element =
     \<lparr>nodeName = ''DIV'', props = [''id'' \<mapsto> VStr ''main''], attrs = [''id'' \<mapsto> ''main''], style = Map.empty\<rparr>"






text \<open>
  When \<^verbatim>\<open>off\<close>, called for a type and a callback, unregisters a listener on account
  of an entry.
\<close>

definition removes :: "host \<Rightarrow> string \<Rightarrow> jsval \<Rightarrow> event_entry \<Rightarrow> listener \<Rightarrow> bool" where
  "removes h t cb e l =
     (t = e_name e \<and> (\<not> truthy cb \<or> cb = e_callback e) \<and>
      (if isW3Compliant h then same_registration t (e_handler e) (e_capturing e) l
       else l_type l = ''on'' @ t \<and> hid (l_handler l) = hid (e_handler e)))"

text \<open>
  The states of \<^verbatim>\<open>w.on("click", f); w.off("click", f)\<close> on a wrapper with no binding,
  \<open>f\<close> being the function of identity 7.
\<close>

definition click_handler :: handler where
  "click_handler = \<lparr>hid = 0, body = SimpleHandler (VFun 7)\<rparr>"

definition click_entry :: event_entry where
  "click_entry =
     \<lparr>e_name = ''click'', e_callback = VFun 7, e_capturing = False, e_handler = click_handler\<rparr>"

definition bound_click :: "nat bound" where
  "bound_click =
     \<lparr>b_wrapper = (new_wrapper DOMElement_class (Some 0))\<lparr>w_events := [click_entry]\<rparr>,
      b_listeners = [\<lparr>l_type = ''click'', l_handler = click_handler, l_capture = False\<rparr>],
      b_next = 1\<rparr>"

definition after_off :: "nat bound" where
  "after_off = bound_click\<lparr>b_listeners := []\<rparr>"

text \<open>A host without \<^verbatim>\<open>addEventListener\<close>, whose functions have no names.\<close>

definition legacy_host :: host where
  "legacy_host =
     example_host\<lparr>isW3Compliant := False, isIECompliant := True,
                   inherited := (\<lambda>k. map_option (\<lambda>b. b\<lparr>bi_name := None\<rparr>) (Object_members k))\<rparr>"

text \<open>The state after \<^verbatim>\<open>w.on("click", "li", 42)\<close> on a wrapper with no binding.\<close>

definition bad_handler :: handler where
  "bad_handler = \<lparr>hid = 0, body = DelegatingHandler (VNum 42) (VStr ''li'')\<rparr>"

definition bound_bad :: "nat bound" where
  "bound_bad =
     \<lparr>b_wrapper = (new_wrapper DOMElement_class (Some 0))
         \<lparr>w_events := [\<lparr>e_name = ''click'', e_callback = VNum 42, e_capturing = False,
                        e_handler = bad_handler\<rparr>]\<rparr>,
      b_listeners = [\<lparr>l_type = ''click'', l_handler = bad_handler, l_capture = False\<rparr>],
      b_next = 1\<rparr>"

text \<open>
  A document that holds one \<^verbatim>\<open>div\<close> whose \<^verbatim>\<open>id\<close> attribute is empty: \<^verbatim>\<open><div id=""></div>\<close>.
\<close>

definition empty_id_div :: element where
  "empty_id_div = \<lparr>nodeName = ''DIV'', props = Map.empty, attrs = [''id'' \<mapsto> []], style = Map.empty\<rparr>"

definition empty_id_world :: "node list" where
  "empty_id_world = [Document [Element empty_id_div []]]"

text \<open>The same with a \<^verbatim>\<open>div\<close> that has no \<^verbatim>\<open>id\<close> attribute.\<close>

definition plain_div :: element where
  "plain_div = \<lparr>nodeName = ''DIV'', props = Map.empty, attrs = Map.empty, style = Map.empty\<rparr>"

definition plain_world :: "node list" where
  "plain_world = [Document [Element plain_div []]]"

text \<open>
  The markup of the list scenario and the tree it parses to; a host whose parser does
  that; the trees of a host before anything is parsed: an empty document and the sandbox.
\<close>

definition list_markup :: string where
  "list_markup = ''<ul><li>a</li><li>b</li></ul>''"

definition bare :: "string \<Rightarrow> element" where
  "bare n = \<lparr>nodeName = n, props = Map.empty, attrs = Map.empty, style = Map.empty\<rparr>"

definition list_tree :: node where
  "list_tree = Element (bare ''UL'') [Element (bare ''LI'') [Text ''a''], Element (bare ''LI'') [Text ''b'']]"

definition parsing_host :: host where
  "parsing_host =
     example_host\<lparr>parse_markup :=
       (\<lambda>s. if s = ''shy;'' @ list_markup then [Text ''shy;'', list_tree] else [Text s])\<rparr>"

definition sandbox_world :: "node list" where
  "sandbox_world = [Document [], Element (bare ''BODY'') []]"

text \<open>The text under the node that a wrapper reference stands for.\<close>

definition text_of :: "node list \<Rightarrow> handle heap \<Rightarrow> jsval \<Rightarrow> string" where
  "text_of w hp r =
     (case r of
        VRef i \<Rightarrow>
          (case objects hp i of
             None \<Rightarrow> []
           | Some wr \<Rightarrow>
               (case w_node wr of
                  None \<Rightarrow> []
                | Some hnd \<Rightarrow> (case lookup w hnd of None \<Rightarrow> [] | Some n \<Rightarrow> textContent n)))
      | _ \<Rightarrow> [])"

text \<open>The trees and the heap after the list markup is parsed, and after its items are found.\<close>

definition parsed_world :: "node list" where
  "parsed_world = [Document [], Element (bare ''BODY'') [list_tree]]"

definition heap_created :: "handle heap" where
  "heap_created =
     \<lparr>objects = [0 \<mapsto> new_wrapper DOMElement_class (Some (1, [0]))], next_ref = 1,
      expando = (\<lambda>n. VUndefined)\<rparr>"

definition heap_found :: "handle heap" where
  "heap_found =
     \<lparr>objects = [0 \<mapsto> new_wrapper DOMElement_class (Some (1, [0])),
                 1 \<mapsto> new_wrapper DOMElement_class (Some (1, [0, 0])),
                 2 \<mapsto> new_wrapper DOMElement_class (Some (1, [0, 1]))],
      next_ref = 3, expando = (\<lambda>n. VUndefined)\<rparr>"


text \<open>
  The style sheet accepts a rule when \<^verbatim>\<open>insertRule\<close> does not throw on it
  (\<^verbatim>\<open>addRule\<close> is taken not to throw); the rules that \<^verbatim>\<open>process\<close> then appends
  are the one inserted rule, or one added rule for every comma-separated selector.
\<close>

definition accepted :: "host \<Rightarrow> string \<Rightarrow> string \<Rightarrow> bool" where
  "accepted h selector ruleText =
     (\<not> has_cssRules h \<or> insertRule_ok h (selector @ '' {'' @ ruleText @ ''}''))"

definition new_rules :: "host \<Rightarrow> string \<Rightarrow> string \<Rightarrow> css_rule list" where
  "new_rules h selector ruleText =
     (if has_cssRules h then [InsertedRule (selector @ '' {'' @ ruleText @ ''}'')]
      else map (\<lambda>sel. AddedRule sel ruleText) (split_on CHR '','' selector))"



text \<open>A host with \<^verbatim>\<open>addBehavior\<close>, and a page on which \<^verbatim>\<open>li\<close> is watched by one callback.\<close>

definition behavior_host :: host where
  "behavior_host =
     example_host\<lparr>isW3Compliant := False, isIECompliant := True, has_addBehavior := True,
                   has_cssRules := False, behaviorUrl := Some ''dom.htc''\<rparr>"


section \<open>Properties of plain objects\<close>

lemma read_own: "table name = Some v \<Longrightarrow> read_property h table name = Own v"
  by (simp add: read_property_def)


lemma read_inherited:
  "table name = None \<Longrightarrow> inherited h name = Some b \<Longrightarrow> read_property h table name = Inherited b"
  by (simp add: read_property_def)


lemma write_own:
  "table name = Some u \<Longrightarrow> write_property h table name v = table(name \<mapsto> v)"
  by (simp add: write_property_def)

lemma Object_members_eq:
  "Object_members ''constructor'' = Some (native_function ''Object'')"
  "Object_members ''toString'' = Some (native_function ''toString'')"
  "Object_members ''click'' = None"
  "Object_members ''li'' = None"
  by (simp_all add: Object_members_def Object_prototype_def)

section \<open>Properties of property access\<close>

lemma protected_keys_eq:
  "protected_keys = [''children'', ''childNodes'', ''elements'', ''parentNode'', ''firstElementChild'',
     ''lastElementChild'', ''nextElementSibling'', ''previousElementSibling'']"
  by (simp add: protected_keys_def)

lemma protected_names_eq:
  "protected_names = [''children'', ''childNodes'', ''elements'', ''parentNode'', ''firstElementChild'',
     ''lastElementChild'', ''nextElementSibling'', ''previousElementSibling'',
     ''children'', ''childNodes'', ''elements'', ''parentNode'', ''firstChild'',
     ''lastChild'', ''nextSibling'', ''previousSibling'']"
  by (simp add: protected_names_def protected_keys_eq)

text \<open>The structural names the specification lists are all in the table.\<close>

lemma structural_names_protected:
  "set [''children'', ''childNodes'', ''parentNode'', ''firstChild'', ''lastChild'',
        ''nextSibling'', ''previousSibling''] \<subseteq> set protected_names"
  by (simp add: protected_names_eq)

text \<open>Neither capability-dependent hook overwrites a protected entry.\<close>

lemma propHooks_protected:
  "name \<in> set protected_names \<Longrightarrow> propHooks h name = Some illegal_hook"
  unfolding protected_names_eq propHooks_def protected_keys_eq
  by (auto simp: Let_def)

lemma get_protected:
  "name \<in> set protected_names \<Longrightarrow>
     DOMElement_get h el (VStr name) = Inl (Thrown (makeError ''get'' []))"
  by (simp add: DOMElement_get_def propHooks_protected read_own illegal_hook_def)

lemma no_space_protected:
  "name \<in> set protected_names \<Longrightarrow> split_on CHR '' '' name = [name]"
  unfolding protected_names_eq by auto

lemma set_protected:
  "name \<in> set protected_names \<Longrightarrow>
     DOMElement_set h el (VStr name) value = (Some (Thrown (makeError ''get'' [])), el)"
  by (cases "value")
     (simp_all add: DOMElement_set_def set_named_def get_protected no_space_protected
        set_one_def propHooks_protected read_own illegal_hook_def)

text \<open>
  Claim C8. For every write-protected structural property name, on any host and any
  element, \<^verbatim>\<open>get(name)\<close> throws instead of reading, and \<^verbatim>\<open>set(name, value)\<close>
  throws for every value (a function value included) and leaves the element exactly as
  it was. Both throw the message that \<^verbatim>\<open>makeError("get")\<close> builds.
\<close>

theorem protected_property_access_raises:
  "name \<in> set protected_names \<Longrightarrow>
     DOMElement_get h el (VStr name) = Inl (Thrown (makeError ''get'' [])) \<and>
     DOMElement_set h el (VStr name) value = (Some (Thrown (makeError ''get'' [])), el)"
  by (simp add: get_protected set_protected)

theorem protected_property_access_raises_witness:
  "''parentNode'' \<in> set protected_names \<and>
   DOMElement_get example_host example_element (VStr ''parentNode'') =
     Inl (Thrown (makeError ''get'' [])) \<and>
   DOMElement_set example_host example_element (VStr ''parentNode'') (VStr ''x'') =
     (Some (Thrown (makeError ''get'' [])), example_element)"
proof -
  have m: "''parentNode'' \<in> set protected_names"
    by (simp add: protected_names_eq)
  show ?thesis
    using m protected_property_access_raises [OF m, of example_host example_element "VStr ''x''"]
    by simp
qed

section \<open>Properties of wrapping\<close>

text \<open>Wrapping never tags the node: \<^verbatim>\<open>__dom__\<close> is read and not written.\<close>

lemma wrap_keeps_expando: "expando (snd (DOMElement_wrap hp x)) = expando hp"
  by (simp add: DOMElement_wrap_def alloc_def split: option.splits)

text \<open>So a node that no one has tagged gets a new wrapper at every call.\<close>

lemma wrap_twice_distinct:
  "\<not> truthy (expando hp n) \<Longrightarrow>
     fst (DOMElement_wrap hp (Some n)) \<noteq>
     fst (DOMElement_wrap (snd (DOMElement_wrap hp (Some n))) (Some n))"
  by (simp add: DOMElement_wrap_def alloc_def)

text \<open>
  Claim C1 says that wrapping a node a second time returns the wrapper of the first
  call. The code reads the cache slot \<^verbatim>\<open>node.__dom__\<close> and never fills it: on a fresh
  heap the first \<^verbatim>\<open>DOMElement(n)\<close> returns the object allocated at reference 0 and the
  second one a different object, at reference 1.
\<close>

theorem wrap_twice_allocates_two_wrappers:
  "fst (DOMElement_wrap fresh_heap (Some (0::nat))) = VRef 0 \<and>
   fst (DOMElement_wrap (snd (DOMElement_wrap fresh_heap (Some (0::nat)))) (Some 0)) = VRef 1"
  by (simp add: DOMElement_wrap_def alloc_def fresh_heap_def)

section \<open>Properties of the data store\<close>







section \<open>Properties of the null objects\<close>

lemma map_of_assign: "map_of (assign t k v) k' = (if k' = k then Some v else map_of t k')"
  by (induction t) auto

lemma map_of_fold_assign:
  "map_of (fold (\<lambda>k t. assign t k (f k)) ks t) k' =
     (if k' \<in> set ks then Some (f k') else map_of t k')"
  by (induction ks arbitrary: t) (auto simp: map_of_assign)

lemma keys_dom: "set (keys t) = dom (map_of t)"
  by (simp add: keys_def dom_map_of_conv_image_fst)

lemma keys_fold_assign:
  "set (keys (fold (\<lambda>k t. assign t k (f k)) ks t)) = set ks \<union> set (keys t)"
  by (auto simp: keys_dom map_of_fold_assign dom_def split: if_splits)

lemma keys_DOMNode_prototype: "keys DOMNode_prototype = DOMNode_methods"
  by (simp add: keys_def DOMNode_prototype_def comp_def)

lemma map_of_DOMNode_prototype:
  "map_of DOMNode_prototype k =
     (if k \<in> set DOMNode_methods then Some (LibFn (''DOMNode.prototype.'' @ k)) else None)"
  unfolding DOMNode_prototype_def
  by (induction DOMNode_methods) (auto simp: map_of_map_restrict restrict_map_def)

lemma public_not_field:
  "name \<in> set public_operations \<Longrightarrow>
     name \<noteq> ''_node'' \<and> name \<noteq> ''_data'' \<and> name \<noteq> ''_events'' \<and> name \<noteq> ''constructor''"
  unfolding public_operations_def DOMNode_methods_def DOMElement_methods_def
  by auto

lemma null_element_operations:
  "name \<in> set public_operations \<Longrightarrow> lookup_member DOMNullElement_chain name = Some NoopFn"
  using public_not_field [of name]
  by (auto simp: DOMNullElement_chain_def with_constructor_def map_of_assign
        DOMNullElement_prototype_def map_of_fold_assign DOMElement_prototype_def keys_fold_assign
        keys_DOMNode_prototype public_operations_def)

lemma null_node_operations:
  "name \<in> set DOMNode_methods \<Longrightarrow> lookup_member DOMNullNode_chain name = Some NoopFn"
  using public_not_field [of name]
  by (auto simp: DOMNullNode_chain_def with_constructor_def map_of_assign
        DOMNullNode_prototype_def map_of_fold_assign keys_DOMNode_prototype public_operations_def)

lemma element_operations:
  "name \<in> set public_operations \<Longrightarrow> \<exists>f. lookup_member DOMElement_chain name = Some (LibFn f)"
  using public_not_field [of name]
  by (auto simp: DOMElement_chain_def with_constructor_def map_of_assign constructed_fields_def
        map_of_fold_assign DOMElement_prototype_def map_of_DOMNode_prototype public_operations_def)

text \<open>
  Claim C4, as stated, fails in what the operations return: the function put on the null
  prototypes is \<^verbatim>\<open>function() {}\<close>, so \<^verbatim>\<open>find("li")\<close> on a null element (here the
  object at reference 0) does not return that object.
\<close>

theorem null_operation_returns_sentinel_counterexample:
  "call_method DOMNullElement_chain (VRef 0) ''find'' [VStr ''li''] \<noteq> Returns (VRef 0)"
  using null_element_operations [of "''find''"]
  by (simp add: call_method_def public_operations_def DOMNode_methods_def)

text \<open>
  Claim C4, amended. Every public operation of a normal wrapper (a method of
  \<^verbatim>\<open>DOMNode.prototype\<close> or \<^verbatim>\<open>DOMElement.prototype\<close>) is also found on a null
  element, where it is the empty function: calling it does nothing and returns
  \<^verbatim>\<open>undefined\<close>, whatever the receiver and the arguments.
\<close>

theorem null_wrapper_operations_are_noops:
  "name \<in> set public_operations \<Longrightarrow>
     (\<exists>f. lookup_member DOMElement_chain name = Some (LibFn f)) \<and>
     lookup_member DOMNullElement_chain name = Some NoopFn \<and>
     call_method DOMNullElement_chain this name args = Returns VUndefined"
  by (simp add: element_operations null_element_operations call_method_def)

theorem null_wrapper_operations_are_noops_witness:
  "''setStyle'' \<in> set public_operations \<and>
   lookup_member DOMNullElement_chain ''setStyle'' = Some NoopFn \<and>
   call_method DOMNullElement_chain (VRef 0) ''setStyle'' [VStr ''width'', VNum 1] = Returns VUndefined"
proof -
  have m: "''setStyle'' \<in> set public_operations"
    by (simp add: public_operations_def DOMElement_methods_def)
  show ?thesis
    using m null_wrapper_operations_are_noops [OF m, of "VRef 0" "[VStr ''width'', VNum 1]"]
    by simp
qed

section \<open>Properties of the event methods\<close>

subsection \<open>Every registration has its entry\<close>

lemma split_on_single: "c \<notin> set t \<Longrightarrow> split_on c t = [t]"
  by (induction t) auto

lemma registered_type_inj: "registered_type h a = registered_type h b \<Longrightarrow> a = b"
  by (auto simp: registered_type_def split: if_splits)

lemma handler_callback_create: "handler_callback (createEventHandler cb sel) = cb"
  by (simp add: createEventHandler_def)

lemma run_handler_callback: "x \<in> set (run_handler u b) \<Longrightarrow> x = handler_callback b"
  by (induction b) (auto split: if_splits)

lemma consistent_on_type: "consistent h s \<Longrightarrow> consistent h (on_type h cb sel ev s)"
  unfolding consistent_def on_type_def Let_def
  by (auto simp: list_all_iff list_ex_iff addEventListener_def attachEvent_def registered_by_def
        registered_type_def handler_callback_create)

lemma consistent_fold_on_type:
  "consistent h s \<Longrightarrow> consistent h (fold (on_type h cb sel) evs s)"
  by (induction evs arbitrary: s) (auto simp: consistent_on_type)

lemma consistent_on_string: "consistent h s \<Longrightarrow> consistent h (on_string h s ev sel cb)"
  by (simp add: on_string_def Let_def consistent_fold_on_type)

lemma consistent_unbound: "consistent example_host unbound"
  by (simp add: consistent_def unbound_def)

subsection \<open>What \<^verbatim>\<open>on\<close> registers\<close>

lemma on_result: "DOMNode_on h s (VStr t) sel cb = (None, on_string h s t sel cb)"
  by (simp add: DOMNode_on_def)

lemma events_on_type:
  "length (w_events (b_wrapper (on_type h cb sel ev s))) = Suc (length (w_events (b_wrapper s)))"
  by (simp add: on_type_def Let_def)

lemma events_on_single:
  "CHR '' '' \<notin> set t \<Longrightarrow>
   length (w_events (b_wrapper (on_string h s t sel cb))) = Suc (length (w_events (b_wrapper s)))"
  by (simp add: on_string_def Let_def split_on_single events_on_type)

text \<open>
  The registration that \<^verbatim>\<open>on(t, cb)\<close> makes for a single event is a binding of \<open>t\<close>
  and \<open>cb\<close>, on either kind of host, when the closure it creates is a new one.
\<close>

lemma on_type_binds:
  assumes fr: "\<forall>l \<in> set (b_listeners s). hid (l_handler l) \<noteq> b_next s"
  shows "\<exists>l \<in> set (b_listeners (on_type h cb VNull t s)).
           listens_for h t l \<and> handler_callback (body (l_handler l)) = cb"
proof (cases "isW3Compliant h")
  case True
  let ?l = "\<lparr>l_type = hooked_name h t,
             l_handler = \<lparr>hid = b_next s, body = SimpleHandler cb\<rparr>,
             l_capture = hooked_capturing h t\<rparr>"
  from fr have "\<not> list_ex (same_registration (hooked_name h t) \<lparr>hid = b_next s, body = SimpleHandler cb\<rparr>
                  (hooked_capturing h t)) (b_listeners s)"
    by (auto simp: list_ex_iff same_registration_def)
  with True have "?l \<in> set (b_listeners (on_type h cb VNull t s))"
    by (simp add: on_type_def Let_def createEventHandler_def addEventListener_def)
  moreover from True have "listens_for h t ?l \<and> handler_callback (body (l_handler ?l)) = cb"
    by (simp add: listens_for_def)
  ultimately show ?thesis by blast
next
  case False
  then show ?thesis
    by (auto simp: on_type_def Let_def createEventHandler_def attachEvent_def listens_for_def)
qed

lemma on_binds:
  assumes f: "typeof cb = ''function''" and sp: "CHR '' '' \<notin> set t"
    and fr: "\<forall>l \<in> set (b_listeners s). hid (l_handler l) \<noteq> b_next s"
  shows "active_bindings h (on_string h s t cb VUndefined) t cb \<noteq> []"
  using on_type_binds [OF fr, of h cb t] f sp
  by (auto simp: active_bindings_def filter_empty_conv on_string_def split_on_single list_ex_iff)

subsection \<open>What \<^verbatim>\<open>off\<close> unregisters\<close>

text \<open>
  \<^verbatim>\<open>off\<close> looks for the entries of the name that \<^verbatim>\<open>on\<close> stored, unless the type
  names an inherited member.
\<close>

lemma names_agree: "inherited h t = None \<Longrightarrow> normalized_type h t = hooked_name h t"
  by (auto simp: normalized_type_def hooked_name_def read_property_def eventHooks_def
           split: option.splits property.splits if_splits)

lemma set_off_entry: "set (off_entry h t cb e ls) = {l \<in> set ls. \<not> removes h t cb e l}"
  by (auto simp: off_entry_def removes_def removeEventListener_def detachEvent_def)

lemma set_fold_off_entry:
  "set (fold (off_entry h t cb) es ls) = {l \<in> set ls. \<forall>e \<in> set es. \<not> removes h t cb e l}"
  by (induction es arbitrary: ls) (auto simp: set_off_entry)

lemma registered_removed:
  "registered_by h e l \<Longrightarrow> e_name e = t \<Longrightarrow> e_callback e = cb \<Longrightarrow> removes h t cb e l"
  by (auto simp: registered_by_def removes_def same_registration_def registered_type_def)

lemma off_result:
  "typeof cb = ''function'' \<Longrightarrow>
   DOMNode_off h s (VStr t) cb =
     (None, s\<lparr>b_listeners := fold (off_entry h (normalized_type h t) cb)
                               (w_events (b_wrapper s)) (b_listeners s)\<rparr>)"
  by (auto simp: DOMNode_off_def)

text \<open>No registration held under the name \<^verbatim>\<open>off\<close> looks for is left for the callback.\<close>

lemma off_removes:
  assumes c: "consistent h s"
    and l: "l \<in> set (fold (off_entry h n cb) (w_events (b_wrapper s)) (b_listeners s))"
    and ty: "l_type l = registered_type h n"
  shows "handler_callback (body (l_handler l)) \<noteq> cb"
proof
  assume cb: "handler_callback (body (l_handler l)) = cb"
  from l have l0: "l \<in> set (b_listeners s)"
    and keep: "\<forall>e \<in> set (w_events (b_wrapper s)). \<not> removes h n cb e l"
    by (auto simp: set_fold_off_entry)
  from c l0 obtain e where e: "e \<in> set (w_events (b_wrapper s))" and r: "registered_by h e l"
    by (auto simp: consistent_def list_all_iff list_ex_iff)
  from r ty have n: "e_name e = n"
    by (auto simp: registered_by_def dest: registered_type_inj)
  from r cb have "e_callback e = cb"
    by (auto simp: registered_by_def)
  with r n have "removes h n cb e l"
    by (simp add: registered_removed)
  with keep e show False by blast
qed

lemma listens_for_type:
  "isW3Compliant h \<or> CHR '':'' \<notin> set t \<Longrightarrow> listens_for h t l \<Longrightarrow>
     l_type l = registered_type h (hooked_name h t)"
  by (auto simp: listens_for_def registered_type_def split: if_splits)

lemma fired_type_registered:
  "isW3Compliant h \<or> CHR '':'' \<notin> set t \<Longrightarrow> fired_type h t = registered_type h (normalized_type h t)"
  by (auto simp: fired_type_def registered_type_def)

lemma no_active_after_off:
  assumes c: "consistent h s" and w: "isW3Compliant h \<or> CHR '':'' \<notin> set t"
    and sp: "CHR '' '' \<notin> set t" and i: "inherited h t = None"
  shows "active_bindings h
           (s\<lparr>b_listeners := fold (off_entry h (normalized_type h t) cb)
                                (w_events (b_wrapper s)) (b_listeners s)\<rparr>)
           t cb = []"
proof -
  {
    fix l
    assume l: "l \<in> set (fold (off_entry h (normalized_type h t) cb)
                            (w_events (b_wrapper s)) (b_listeners s))"
      and f: "listens_for h t l"
    from w f have "l_type l = registered_type h (hooked_name h t)"
      by (rule listens_for_type)
    with i have "l_type l = registered_type h (normalized_type h t)"
      by (simp add: names_agree)
    with c l have "handler_callback (body (l_handler l)) \<noteq> cb"
      by (rule off_removes)
  }
  then show ?thesis
    using sp by (auto simp: active_bindings_def filter_empty_conv split_on_single)
qed

subsection \<open>What \<^verbatim>\<open>fire\<close> calls\<close>

lemma fire_result:
  "DOMNode_fire h s (VStr t) detail =
     Inr (dispatch (fired_type h t)
            (if \<not> isW3Compliant h \<and> CHR '':'' \<in> set t then Some (normalized_type h t) else None)
            (b_listeners s))"
  by (simp add: DOMNode_fire_def Let_def fired_type_def)

lemma dispatch_calls:
  "cb \<in> set (dispatch ty u ls) \<Longrightarrow>
     \<exists>l \<in> set ls. l_type l = ty \<and> handler_callback (body (l_handler l)) = cb"
proof -
  assume "cb \<in> set (dispatch ty u ls)"
  then obtain l where "l \<in> set ls" "l_type l = ty" "cb \<in> set (run_handler u (body (l_handler l)))"
    by (auto simp: dispatch_def)
  then show ?thesis
    using run_handler_callback by blast
qed

lemma fire_after_off_skips:
  assumes c: "consistent h s" and w: "isW3Compliant h \<or> CHR '':'' \<notin> set t"
  shows "\<exists>cbs. DOMNode_fire h
           (s\<lparr>b_listeners := fold (off_entry h (normalized_type h t) cb)
                                (w_events (b_wrapper s)) (b_listeners s)\<rparr>)
           (VStr t) detail = Inr cbs \<and> cb \<notin> set cbs"
proof -
  let ?ls = "fold (off_entry h (normalized_type h t) cb) (w_events (b_wrapper s)) (b_listeners s)"
  {
    fix u
    assume "cb \<in> set (dispatch (fired_type h t) u ?ls)"
    then obtain l where l: "l \<in> set ?ls" and ty: "l_type l = fired_type h t"
      and cb: "handler_callback (body (l_handler l)) = cb"
      using dispatch_calls by blast
    from ty w have "l_type l = registered_type h (normalized_type h t)"
      by (simp add: fired_type_registered)
    with c l have "handler_callback (body (l_handler l)) \<noteq> cb"
      by (rule off_removes)
    with cb have False by simp
  }
  then show ?thesis
    by (auto simp: fire_result)
qed

subsection \<open>The calls \<^verbatim>\<open>on("click", f)\<close>, \<^verbatim>\<open>off("click", f)\<close>, \<^verbatim>\<open>fire("click")\<close>\<close>

lemma click_hooks:
  "hooked_name example_host ''click'' = ''click''"
  "hooked_capturing example_host ''click'' = False"
  "normalized_type example_host ''click'' = ''click''"
  by (simp_all add: hooked_name_def hooked_capturing_def normalized_type_def read_property_def
        eventHooks_def example_host_def Object_members_eq)

lemma on_click:
  "DOMNode_on example_host unbound (VStr ''click'') (VFun 7) VUndefined = (None, bound_click)"
  by (simp add: DOMNode_on_def on_string_def on_type_def click_hooks Let_def)
     (simp add: example_host_def unbound_def createEventHandler_def
        addEventListener_def bound_click_def click_entry_def click_handler_def new_wrapper_def)

lemma off_click:
  "DOMNode_off example_host bound_click (VStr ''click'') (VFun 7) = (None, after_off)"
  by (simp add: DOMNode_off_def click_hooks)
     (simp add: off_entry_def example_host_def
        bound_click_def after_off_def click_entry_def click_handler_def removeEventListener_def
        same_registration_def new_wrapper_def)

lemma fire_bound:
  "DOMNode_fire example_host bound_click (VStr ''click'') VUndefined = Inr [VFun 7]"
  by (simp add: DOMNode_fire_def click_hooks)
     (simp add: example_host_def dispatch_def bound_click_def click_handler_def)

lemma fire_after_off:
  "DOMNode_fire example_host after_off (VStr ''click'') VUndefined = Inr []"
  by (simp add: DOMNode_fire_def click_hooks)
     (simp add: example_host_def dispatch_def after_off_def)

lemma active_bound:
  "active_bindings example_host bound_click ''click'' (VFun 7) =
     [\<lparr>l_type = ''click'', l_handler = click_handler, l_capture = False\<rparr>]"
  by (simp add: active_bindings_def listens_for_def click_hooks)
     (simp add: example_host_def bound_click_def click_handler_def)

text \<open>
  Claim C3, as stated, fails in its middle part: \<^verbatim>\<open>off\<close> unregisters the handler and
  leaves \<^verbatim>\<open>this._events\<close> alone, so the binding record that \<^verbatim>\<open>on\<close> created is still
  there after the matching \<^verbatim>\<open>off\<close>.
\<close>

theorem binding_record_survives_off_counterexample:
  "DOMNode_on example_host unbound (VStr ''click'') (VFun 7) VUndefined = (None, bound_click) \<and>
   DOMNode_off example_host bound_click (VStr ''click'') (VFun 7) = (None, after_off) \<and>
   w_events (b_wrapper after_off) = [click_entry]"
  using on_click off_click
  by (simp add: after_off_def bound_click_def)

text \<open>
  Three kinds of type for which the registration itself outlives the matching \<^verbatim>\<open>off\<close>.
  On a host without \<^verbatim>\<open>addEventListener\<close>, \<^verbatim>\<open>on\<close> stores the entry of a custom event
  under \<^verbatim>\<open>dataavailable\<close>; \<^verbatim>\<open>off("a:b", f)\<close> looks for \<^verbatim>\<open>a:b\<close>, finds no entry, and
  \<^verbatim>\<open>fire("a:b")\<close> still calls \<open>f\<close>.
\<close>

lemma legacy_custom_event_stays_bound:
  "\<exists>s1. DOMNode_on legacy_host unbound (VStr ''a:b'') (VFun 7) VUndefined = (None, s1) \<and>
     DOMNode_off legacy_host s1 (VStr ''a:b'') (VFun 7) = (None, s1) \<and>
     map l_type (b_listeners s1) = [''ondataavailable''] \<and>
     DOMNode_fire legacy_host s1 (VStr ''a:b'') VUndefined = Inr [VFun 7]"
  by (simp add: DOMNode_on_def on_string_def on_type_def example_host_def unbound_def Let_def
        legacy_host_def hooked_name_def hooked_capturing_def eventHooks_def createEventHandler_def
        attachEvent_def DOMNode_off_def off_entry_def normalized_type_def detachEvent_def
        DOMNode_fire_def dispatch_def new_wrapper_def read_property_def Object_members_def
        Object_prototype_def)

text \<open>
  \<^verbatim>\<open>on\<close> splits its type at the spaces and \<^verbatim>\<open>off\<close> does not: \<^verbatim>\<open>on("a b", f)\<close>
  registers \<open>f\<close> for \<^verbatim>\<open>a\<close> and for \<^verbatim>\<open>b\<close>, \<^verbatim>\<open>off("a b", f)\<close> looks for entries named
  \<^verbatim>\<open>a b\<close>, and both registrations stay; \<^verbatim>\<open>fire("a")\<close> still calls \<open>f\<close>.
\<close>

lemma space_separated_types_stay_bound:
  "\<exists>s1. DOMNode_on example_host unbound (VStr ''a b'') (VFun 7) VUndefined = (None, s1) \<and>
     DOMNode_off example_host s1 (VStr ''a b'') (VFun 7) = (None, s1) \<and>
     map l_type (b_listeners s1) = [''a'', ''b''] \<and>
     map l_type (active_bindings example_host s1 ''a b'' (VFun 7)) = [''a'', ''b''] \<and>
     DOMNode_fire example_host s1 (VStr ''a'') VUndefined = Inr [VFun 7]"
  by (simp add: DOMNode_on_def on_string_def on_type_def example_host_def unbound_def Let_def
        hooked_name_def hooked_capturing_def eventHooks_def createEventHandler_def
        addEventListener_def DOMNode_off_def off_entry_def normalized_type_def
        DOMNode_fire_def dispatch_def new_wrapper_def read_property_def Object_members_def
        Object_prototype_def same_registration_def active_bindings_def listens_for_def)

text \<open>
  A type that names an inherited member whose \<^verbatim>\<open>name\<close> is another one:
  \<^verbatim>\<open>on("constructor", f)\<close> registers \<open>f\<close> under \<^verbatim>\<open>constructor\<close>, and
  \<^verbatim>\<open>off("constructor", f)\<close> looks for entries named \<^verbatim>\<open>Object\<close>.
\<close>

lemma inherited_name_stays_bound:
  "normalized_type example_host ''constructor'' = ''Object'' \<and>
   (\<exists>s1. DOMNode_on example_host unbound (VStr ''constructor'') (VFun 7) VUndefined = (None, s1) \<and>
     DOMNode_off example_host s1 (VStr ''constructor'') (VFun 7) = (None, s1) \<and>
     map l_type (b_listeners s1) = [''constructor''] \<and>
     map l_type (active_bindings example_host s1 ''constructor'' (VFun 7)) = [''constructor''])"
  by (simp add: DOMNode_on_def on_string_def on_type_def example_host_def unbound_def Let_def
        hooked_name_def hooked_capturing_def eventHooks_def createEventHandler_def
        addEventListener_def DOMNode_off_def off_entry_def normalized_type_def
        new_wrapper_def read_property_def Object_members_def native_function_def
        Object_prototype_def same_registration_def active_bindings_def listens_for_def)

text \<open>
  Claim C3, amended. Take a wrapper whose node holds only registrations made through the
  wrapper, a callback \<open>cb\<close> that is a function, and a type string \<open>t\<close> that is a single
  event type (it has no space), is not the name of a member that every object inherits,
  and, on a host without \<^verbatim>\<open>addEventListener\<close>, has no colon. Then neither
  \<^verbatim>\<open>on(t, cb)\<close> nor the \<^verbatim>\<open>off(t, cb)\<close> after it throws; after the two calls the host
  holds no registration that is a binding of \<open>t\<close> and \<open>cb\<close>, and \<^verbatim>\<open>fire(t)\<close> does
  not call \<open>cb\<close>. The record that \<^verbatim>\<open>on\<close> added to \<^verbatim>\<open>this._events\<close> is not destroyed:
  \<^verbatim>\<open>off\<close> leaves \<^verbatim>\<open>this._events\<close> as \<^verbatim>\<open>on\<close> left it.
\<close>

theorem on_then_off_unbinds:
  "consistent h s \<Longrightarrow> typeof cb = ''function'' \<Longrightarrow>
   CHR '' '' \<notin> set t \<Longrightarrow> inherited h t = None \<Longrightarrow>
   isW3Compliant h \<or> CHR '':'' \<notin> set t \<Longrightarrow>
   DOMNode_on h s (VStr t) cb VUndefined = (r1, s1) \<Longrightarrow>
   DOMNode_off h s1 (VStr t) cb = (r2, s2) \<Longrightarrow>
     r1 = None \<and> r2 = None \<and>
     active_bindings h s2 t cb = [] \<and>
     (\<exists>cbs. DOMNode_fire h s2 (VStr t) detail = Inr cbs \<and> cb \<notin> set cbs) \<and>
     length (w_events (b_wrapper s1)) = Suc (length (w_events (b_wrapper s))) \<and>
     w_events (b_wrapper s2) = w_events (b_wrapper s1)"
proof -
  assume c: "consistent h s" and f: "typeof cb = ''function''"
    and sp: "CHR '' '' \<notin> set t" and i: "inherited h t = None"
    and w: "isW3Compliant h \<or> CHR '':'' \<notin> set t"
    and on: "DOMNode_on h s (VStr t) cb VUndefined = (r1, s1)"
    and off: "DOMNode_off h s1 (VStr t) cb = (r2, s2)"
  from on have r1: "r1 = None" and s1: "s1 = on_string h s t cb VUndefined"
    by (simp_all add: on_result)
  from c s1 have c1: "consistent h s1"
    by (simp add: consistent_on_string)
  from sp s1 have n: "length (w_events (b_wrapper s1)) = Suc (length (w_events (b_wrapper s)))"
    by (simp add: events_on_single)
  from off f have r2: "r2 = None"
    and s2: "s2 = s1\<lparr>b_listeners := fold (off_entry h (normalized_type h t) cb)
                                       (w_events (b_wrapper s1)) (b_listeners s1)\<rparr>"
    by (simp_all add: off_result)
  from c1 w sp i s2 have a: "active_bindings h s2 t cb = []"
    by (simp add: no_active_after_off)
  from c1 w s2 have "\<exists>cbs. DOMNode_fire h s2 (VStr t) detail = Inr cbs \<and> cb \<notin> set cbs"
    by (simp add: fire_after_off_skips)
  with r1 r2 a n s2 show ?thesis by simp
qed

theorem on_then_off_unbinds_witness:
  "consistent example_host unbound \<and> typeof (VFun 7) = ''function'' \<and>
   CHR '' '' \<notin> set ''click'' \<and> inherited example_host ''click'' = None \<and>
   isW3Compliant example_host \<and>
   DOMNode_on example_host unbound (VStr ''click'') (VFun 7) VUndefined = (None, bound_click) \<and>
   length (active_bindings example_host bound_click ''click'' (VFun 7)) = 1 \<and>
   DOMNode_fire example_host bound_click (VStr ''click'') VUndefined = Inr [VFun 7] \<and>
   DOMNode_off example_host bound_click (VStr ''click'') (VFun 7) = (None, after_off) \<and>
   active_bindings example_host after_off ''click'' (VFun 7) = [] \<and>
   DOMNode_fire example_host after_off (VStr ''click'') VUndefined = Inr [] \<and>
   length (w_events (b_wrapper bound_click)) = 1 \<and>
   w_events (b_wrapper after_off) = w_events (b_wrapper bound_click)"
proof -
  have f: "typeof (VFun 7) = ''function''" by simp
  have sp: "CHR '' '' \<notin> set ''click''" by simp
  have i: "inherited example_host ''click'' = None"
    by (simp add: example_host_def Object_members_eq)
  have w: "isW3Compliant example_host \<or> CHR '':'' \<notin> set ''click''"
    by (simp add: example_host_def)
  have u: "w_events (b_wrapper unbound) = []"
    by (simp add: unbound_def new_wrapper_def)
  show ?thesis
    using on_then_off_unbinds [OF consistent_unbound f sp i w on_click off_click, of VUndefined]
      consistent_unbound on_click off_click fire_bound fire_after_off active_bound i u
    by (simp add: example_host_def)
qed

subsection \<open>Argument checks\<close>

text \<open>\<^verbatim>\<open>off\<close> and \<^verbatim>\<open>fire\<close> check their arguments before they do anything.\<close>

lemma off_rejects_bad_type:
  "typeof t \<noteq> ''string'' \<Longrightarrow> DOMNode_off h s t cb = (Some (Thrown (makeError ''off'' [])), s)"
  by (cases t) (simp_all add: DOMNode_off_def)

lemma off_rejects_bad_callback:
  "cb \<noteq> VUndefined \<Longrightarrow> typeof cb \<noteq> ''function'' \<Longrightarrow>
     DOMNode_off h s t cb = (Some (Thrown (makeError ''off'' [])), s)"
  by (cases t) (simp_all add: DOMNode_off_def)

lemma fire_rejects_bad_type:
  "typeof t \<noteq> ''string'' \<Longrightarrow> DOMNode_fire h s t detail = Inl (Thrown (makeError ''fire'' []))"
  by (cases t) (simp_all add: DOMNode_fire_def)

lemma on_rejects_bad_type:
  "typeof t \<noteq> ''string'' \<Longrightarrow> typeof t \<noteq> ''object'' \<Longrightarrow>
     DOMNode_on h s t sel cb = (Some (Thrown (makeError ''on'' [])), s)"
  by (cases t) (simp_all add: DOMNode_on_def)

text \<open>
  \<^verbatim>\<open>on\<close> does not look at the callback: \<^verbatim>\<open>on("click", "li", 42)\<close> throws nothing,
  registers a delegating handler with the host and pushes an entry whose callback is
  \<^verbatim>\<open>42\<close>. (\<^verbatim>\<open>off\<close> checks its callback, as the lemmas above show.)
\<close>

lemma on_accepts_callback_that_is_no_function:
  "DOMNode_on example_host unbound (VStr ''click'') (VStr ''li'') (VNum 42) = (None, bound_bad) \<and>
   map e_callback (w_events (b_wrapper bound_bad)) = [VNum 42] \<and>
   length (b_listeners bound_bad) = 1"
  by (simp add: DOMNode_on_def on_string_def on_type_def click_hooks Let_def)
     (simp add: example_host_def unbound_def createEventHandler_def
        addEventListener_def bound_bad_def bad_handler_def new_wrapper_def)

text \<open>
  Claim C6, as stated, fails for \<^verbatim>\<open>on\<close> with an event that is no string: an object
  is taken as a map from event types to callbacks, so \<^verbatim>\<open>on({click: f})\<close> throws
  nothing and binds \<open>f\<close> to \<^verbatim>\<open>click\<close>.
\<close>

theorem on_accepts_object_event_counterexample:
  "typeof (VObj [(''click'', VFun 7)]) \<noteq> ''string'' \<and>
   DOMNode_on example_host unbound (VObj [(''click'', VFun 7)]) VUndefined VUndefined =
     (None, bound_click)"
  by (simp add: DOMNode_on_def on_string_def on_type_def click_hooks Let_def)
     (simp add: example_host_def unbound_def createEventHandler_def
        addEventListener_def bound_click_def click_entry_def click_handler_def new_wrapper_def)

text \<open>
  Claim C6, amended. \<^verbatim>\<open>off\<close> and \<^verbatim>\<open>fire\<close> throw the argument error of their own
  name when the event type is no string, and \<^verbatim>\<open>off\<close> also when it is given a callback
  that is no function; \<^verbatim>\<open>on\<close> throws the one of its name when the event is neither a
  string nor an object. In each case nothing has been changed when the error is thrown:
  the state returned with the error is the state before the call.
\<close>

theorem invalid_event_arguments_raise:
  "(typeof t \<noteq> ''string'' \<longrightarrow>
      DOMNode_off h s t cb = (Some (Thrown (makeError ''off'' [])), s) \<and>
      DOMNode_fire h s t detail = Inl (Thrown (makeError ''fire'' []))) \<and>
   (cb \<noteq> VUndefined \<and> typeof cb \<noteq> ''function'' \<longrightarrow>
      DOMNode_off h s t cb = (Some (Thrown (makeError ''off'' [])), s)) \<and>
   (typeof t \<noteq> ''string'' \<and> typeof t \<noteq> ''object'' \<longrightarrow>
      DOMNode_on h s t sel cb = (Some (Thrown (makeError ''on'' [])), s))"
  using off_rejects_bad_type [of t h s cb] fire_rejects_bad_type [of t h s detail]
    off_rejects_bad_callback [of cb h s t] on_rejects_bad_type [of t h s sel cb]
  by blast

theorem invalid_event_arguments_raise_witness:
  "typeof (VNum 5) \<noteq> ''string'' \<and> typeof (VNum 5) \<noteq> ''object'' \<and>
   VStr ''f'' \<noteq> VUndefined \<and> typeof (VStr ''f'') \<noteq> ''function'' \<and>
   DOMNode_off example_host bound_click (VNum 5) (VStr ''f'') =
     (Some (Thrown (makeError ''off'' [])), bound_click) \<and>
   DOMNode_fire example_host bound_click (VNum 5) VUndefined = Inl (Thrown (makeError ''fire'' [])) \<and>
   DOMNode_on example_host bound_click (VNum 5) VUndefined (VStr ''f'') =
     (Some (Thrown (makeError ''on'' [])), bound_click)"
  using invalid_event_arguments_raise
          [of "VNum 5" example_host bound_click "VStr ''f''" VUndefined VUndefined]
  by simp

section \<open>Properties of \<^verbatim>\<open>SelectorMatcher\<close>\<close>

lemma exec_dot_a: "rquickIs_exec ''.a'' = Some quick_dot_a"
  by (simp add: rquickIs_exec_def optional_group_def is_word_char_def is_name_char_def
        quick_dot_a_def)

lemma name_char_no_space: "is_name_char c \<Longrightarrow> \<not> is_space_char c"
  by (auto simp: is_name_char_def is_word_char_def is_space_char_def)

lemma space_is_space: "is_space_char CHR '' ''"
  by (simp add: is_space_char_def)

lemma optional_group_name:
  "optional_group opening closing s = (Some n, r) \<Longrightarrow> n \<noteq> [] \<and> list_all is_name_char n"
  by (auto simp: optional_group_def list_all_iff split: list.splits if_splits option.splits
        dest: set_takeWhileD)

text \<open>The class of a quick selector is a name: not empty, and without white space.\<close>

lemma quick_class_name:
  assumes "rquickIs_exec sel = Some q" "q_class q = Some c"
  shows "c \<noteq> [] \<and> spaceless c"
proof -
  from assms obtain r3 r4 where "optional_group CHR ''.'' None r3 = (Some c, r4)"
    by (auto simp: rquickIs_exec_def Let_def split: prod.splits if_splits)
  then have "c \<noteq> [] \<and> list_all is_name_char c"
    by (rule optional_group_name)
  then show ?thesis
    using name_char_no_space by (auto simp: spaceless_def list_all_iff)
qed

lemma toLowerCase_Nil: "(toLowerCase s = []) = (s = [])"
  by (simp add: toLowerCase_def)

text \<open>The search for \<^verbatim>\<open>" c "\<close> passes over a word, and finds \<open>c\<close> only as a whole word.\<close>

lemma occurs_skip_word:
  "spaceless acc \<Longrightarrow> occurs_in (CHR '' '' # p) (acc @ rest) = occurs_in (CHR '' '' # p) rest"
  by (induction acc) (auto simp: spaceless_def space_is_space)

lemma word_prefix:
  "spaceless acc \<Longrightarrow> spaceless c \<Longrightarrow> rest = [] \<or> hd rest = CHR '' '' \<Longrightarrow>
     (take (Suc (length c)) (acc @ rest) = c @ '' '') = (acc = c \<and> rest \<noteq> [])"
proof (induction c arbitrary: acc)
  case Nil
  then show ?case
    by (cases acc; cases rest) (auto simp: spaceless_def space_is_space)
next
  case (Cons x c)
  then show ?case
    by (cases acc; cases rest) (auto simp: spaceless_def space_is_space)
qed

lemma occurs_after_space:
  assumes "spaceless acc" "spaceless c" "rest = [] \<or> hd rest = CHR '' ''"
  shows "occurs_in ('' '' @ c @ '' '') ('' '' @ acc @ rest) =
           ((acc = c \<and> rest \<noteq> []) \<or> occurs_in ('' '' @ c @ '' '') rest)"
  using assms word_prefix [of acc c rest] occurs_skip_word [of acc "c @ '' ''" rest]
  by simp

lemma tokens_occurs:
  "c \<noteq> [] \<Longrightarrow> spaceless c \<Longrightarrow> plain_spaces s \<Longrightarrow> spaceless acc \<Longrightarrow>
     (c \<in> set (tokens acc s)) = occurs_in ('' '' @ c @ '' '') ('' '' @ acc @ s @ '' '')"
proof (induction s arbitrary: acc)
  case Nil
  then show ?case
    using occurs_after_space [of acc c "'' ''"]
    by auto
next
  case (Cons x xs)
  show ?case
  proof (cases "is_space_char x")
    case True
    with Cons.prems have x: "x = CHR '' ''"
      by (simp add: plain_spaces_def)
    from Cons.prems have ps: "plain_spaces xs"
      by (simp add: plain_spaces_def)
    have e: "spaceless []" by (simp add: spaceless_def)
    have ih: "(c \<in> set (tokens [] xs)) = occurs_in ('' '' @ c @ '' '') ('' '' @ xs @ '' '')"
      using Cons.IH [of "[]"] Cons.prems ps e by simp
    show ?thesis
      using occurs_after_space [of acc c "CHR '' '' # xs @ '' ''"] Cons.prems ih x True
      by auto
  next
    case False
    with Cons.prems have "spaceless (acc @ [x])" and "plain_spaces xs"
      by (simp_all add: spaceless_def plain_spaces_def)
    with Cons.IH [of "acc @ [x]"] Cons.prems False show ?thesis
      by simp
  qed
qed

lemma class_test_agrees:
  assumes "plain_spaces (className el)" "rquickIs_exec sel = Some q"
  shows "(case q_class q of
            None \<Rightarrow> True
          | Some c \<Rightarrow> occurs_in ('' '' @ c @ '' '') ('' '' @ className el @ '' '')) =
         (case q_class q of None \<Rightarrow> True | Some c \<Rightarrow> c \<in> set (class_list el))"
proof (cases "q_class q")
  case None
  then show ?thesis by simp
next
  case (Some c)
  with assms have c: "c \<noteq> []" and sc: "spaceless c"
    using quick_class_name by blast+
  have e: "spaceless []"
    by (simp add: spaceless_def)
  have "(c \<in> set (tokens [] (className el))) =
      occurs_in ('' '' @ c @ '' '') ('' '' @ [] @ className el @ '' '')"
    using c sc assms(1) e by (rule tokens_occurs)
  with Some show ?thesis
    by (simp add: class_list_def)
qed

text \<open>
  Where the classes of the element are separated by plain spaces only, the quick test
  and the structural comparison agree, for every quick selector.
\<close>

lemma quick_test_agrees_on_plain_spaces:
  assumes "plain_spaces (className el)" "rquickIs_exec sel = Some q"
  shows "DOMElement_matches h el (VStr sel) = Inr (structural_match q el)"
proof -
  have m: "DOMElement_matches h el (VStr sel) =
      Inr ((q_tag q = [] \<or> toLowerCase (nodeName el) = toLowerCase (q_tag q)) \<and>
           (case q_id q of None \<Rightarrow> True | Some i \<Rightarrow> el_id el = i) \<and>
           (case q_attribute q of None \<Rightarrow> True | Some a \<Rightarrow> hasAttribute el a) \<and>
           (case q_class q of
              None \<Rightarrow> True
            | Some c \<Rightarrow> occurs_in ('' '' @ c @ '' '') ('' '' @ className el @ '' '')))"
    using assms(2)
    by (cases "q_class q")
       (auto simp: DOMElement_matches_def SelectorMatcher_def SelectorMatcher_test_def
          toLowerCase_Nil simp del: occurs_in.simps append.simps)
  show ?thesis
    unfolding m structural_match_def class_test_agrees [OF assms] by simp
qed

text \<open>
  Claim C2 says that the quick test agrees with the generic matching on every element.
  For the quick selector \<^verbatim>\<open>.a\<close> and an element with \<^verbatim>\<open>class="a&#9;b"\<close> (two classes,
  a tab between them) the quick test answers no: it looks for \<^verbatim>\<open>" a "\<close> in
  \<^verbatim>\<open>" " + className + " "\<close>. The element's class list holds \<^verbatim>\<open>a\<close>, so the generic
  matching answers yes, and so does the class test of \<^verbatim>\<open>hasClass\<close>, which replaces
  tabs and line breaks by spaces before the same search.
\<close>

theorem quick_test_misses_tab_separated_class:
  "DOMElement_matches example_host tabbed_element (VStr ''.a'') = Inr False \<and>
   rquickIs_exec ''.a'' = Some quick_dot_a \<and>
   structural_match quick_dot_a tabbed_element \<and>
   hasClass_strategy tabbed_element ''a''"
  by (simp add: DOMElement_matches_def SelectorMatcher_def exec_dot_a SelectorMatcher_test_def
        quick_dot_a_def tabbed_element_def className_def structural_match_def class_list_def
        is_space_char_def hasClass_strategy_def replace_rclass_def)

section \<open>Properties of \<^verbatim>\<open>find\<close>\<close>

subsection \<open>Updating a node of a tree\<close>

lemma node_at_update_at:
  "node_at t p = Some n \<Longrightarrow> node_at (update_at p f t) p = Some (f n)"
proof (induction p arbitrary: t)
  case Nil
  then show ?case by simp
next
  case (Cons i p)
  then show ?case by (cases t) (auto split: if_splits)
qed

lemma update_at_update_at:
  "update_at p g (update_at p f t) = update_at p (g \<circ> f) t"
proof (induction p arbitrary: t)
  case Nil
  then show ?case by simp
next
  case (Cons i p)
  then show ?case by (cases t) auto
qed

lemma update_at_same:
  "node_at t p = Some n \<Longrightarrow> f n = n \<Longrightarrow> update_at p f t = t"
proof (induction p arbitrary: t)
  case Nil
  then show ?case by simp
next
  case (Cons i p)
  then show ?case by (cases t) (auto split: if_splits simp: list_update_same_conv)
qed

lemma lookup_update: "lookup w hnd = Some n \<Longrightarrow> lookup (update hnd f w) hnd = Some (f n)"
  by (auto simp: lookup_def update_def node_at_update_at split: if_splits)

lemma update_update: "update hnd g (update hnd f w) = update hnd (g \<circ> f) w"
  by (auto simp: update_def update_at_update_at)

lemma update_same: "lookup w hnd = Some n \<Longrightarrow> f n = n \<Longrightarrow> update hnd f w = w"
  by (auto simp: lookup_def update_def update_at_same list_update_same_conv split: if_splits)

lemma set_then_remove:
  assumes l: "lookup w hnd = Some (Element e ks)" and a: "attrs e k = None"
  shows "removeAttribute hnd k (setAttribute hnd k v w) = w"
proof -
  let ?f = "map_element (\<lambda>e. e\<lparr>attrs := (attrs e)(k := None)\<rparr>) \<circ>
            map_element (\<lambda>e. e\<lparr>attrs := (attrs e)(k \<mapsto> v)\<rparr>)"
  from a have "(attrs e)(k := None) = attrs e"
    by (simp add: fun_upd_idem_iff)
  then have "?f (Element e ks) = Element e ks"
    by simp
  with l have "update hnd ?f w = w"
    by (rule update_same)
  then show ?thesis
    by (simp add: removeAttribute_def setAttribute_def update_update)
qed

lemma getAttribute_setAttribute:
  "lookup w hnd = Some (Element e ks) \<Longrightarrow> getAttribute (setAttribute hnd k v w) hnd k = Some v"
  by (simp add: getAttribute_def setAttribute_def lookup_update)

subsection \<open>The scoped query\<close>

lemma split_on_not_Nil: "split_on c s \<noteq> []"
  by (induction s) (auto split: list.splits)

lemma join_prefixed_Cons: "p @ join (sep @ p) (x # xs) = join sep (map ((@) p) (x # xs))"
  by (induction xs arbitrary: x) auto

lemma join_prefixed: "xs \<noteq> [] \<Longrightarrow> p @ join (sep @ p) xs = join sep (map ((@) p) xs)"
  by (cases xs) (simp_all add: join_prefixed_Cons del: join.simps)

text \<open>Every comma-separated branch of the selector gets the prefix.\<close>

lemma scoped_selector_branches:
  "scoped_selector nid sel = join '','' (map ((@) (id_prefix nid)) (split_on CHR '','' sel))"
  using join_prefixed [of "split_on CHR '','' sel" "id_prefix nid" "'',''"]
    split_on_not_Nil [of "CHR '',''" sel]
  by (simp add: scoped_selector_def)

text \<open>
  A root without an \<^verbatim>\<open>id\<close> attribute: the query runs on trees in which the root has the
  temporary id, with the prefix on every branch, and whatever the query does, value or
  throw, the trees are afterwards what they were.
\<close>

lemma find_without_id:
  assumes "lookup w hnd = Some (Element e ks)" and "attrs e ''id'' = None"
    and "\<not> is_document hnd" and "rquickExpr_exec h sel = None"
  shows "find_elements h w hnd (VStr sel) multiple =
           (run_query h (setAttribute hnd ''id'' (tmpId h) w)
              (case parentNode hnd of
                 None \<Rightarrow> hnd
               | Some par \<Rightarrow> if rsibling_test sel then par else hnd)
              (join '','' (map ((@) (id_prefix (tmpId h))) (split_on CHR '','' sel))) multiple,
            w) \<and>
         getAttribute (setAttribute hnd ''id'' (tmpId h) w) hnd ''id'' = Some (tmpId h)"
  using assms
  by (simp add: find_elements_def scoped_query_def Let_def getAttribute_def set_then_remove
        scoped_selector_branches getAttribute_setAttribute [unfolded getAttribute_def])

text \<open>A root with an \<^verbatim>\<open>id\<close> that is not empty: its own id scopes the query, and nothing is written.\<close>

lemma find_with_id:
  assumes "lookup w hnd = Some (Element e ks)" and "attrs e ''id'' = Some v" and "v \<noteq> []"
    and "\<not> is_document hnd" and "rquickExpr_exec h sel = None"
  shows "find_elements h w hnd (VStr sel) multiple =
           (run_query h w
              (case parentNode hnd of
                 None \<Rightarrow> hnd
               | Some par \<Rightarrow> if rsibling_test sel then par else hnd)
              (join '','' (map ((@) (id_prefix (escape_id v))) (split_on CHR '','' sel))) multiple,
            w)"
  using assms
  by (simp add: find_elements_def scoped_query_def Let_def getAttribute_def scoped_selector_branches)

lemma scoped_query_frame:
  "lookup w hnd = Some (Element e ks) \<Longrightarrow> attrs e ''id'' \<noteq> Some [] \<Longrightarrow>
     snd (scoped_query h w hnd sel multiple) = w"
  by (cases "attrs e ''id''")
     (simp_all add: scoped_query_def Let_def getAttribute_def set_then_remove)

text \<open>So \<^verbatim>\<open>find\<close> leaves the trees alone on a root whose id is absent or not empty.\<close>

lemma find_frame:
  "lookup w hnd = Some (Element e ks) \<Longrightarrow> attrs e ''id'' \<noteq> Some [] \<Longrightarrow>
     snd (find_elements h w hnd sel multiple) = w"
  by (auto simp: find_elements_def scoped_query_frame split: jsval.splits option.splits)

lemma find_restores_plain_root:
  "snd (find_elements h plain_world (0, [0]) (VStr sel) multiple) = plain_world"
  by (rule find_frame [of plain_world "(0, [0])" plain_div "[]"])
     (simp_all add: plain_world_def lookup_def plain_div_def)

text \<open>
  Claim C7 says that the root's attributes are unchanged after the call. On a root whose
  \<^verbatim>\<open>id\<close> attribute is there and empty, \<^verbatim>\<open><div id="">\<close>, the empty id counts as none:
  the temporary id overwrites it and the clean-up removes the attribute. Here
  \<^verbatim>\<open>find(".a .b")\<close> returns normally, with no match, and the \<^verbatim>\<open>id\<close> attribute is gone.
\<close>

theorem find_strips_empty_id:
  "getAttribute empty_id_world (0, [0]) ''id'' = Some [] \<and>
   fst (find_elements example_host empty_id_world (0, [0]) (VStr ''.a .b'') False) = Inr (Single None) \<and>
   getAttribute (snd (find_elements example_host empty_id_world (0, [0]) (VStr ''.a .b'') False))
     (0, [0]) ''id'' = None"
  by (simp add: find_elements_def rquickExpr_exec_def is_name_char_def is_word_char_def
        is_document_def empty_id_world_def lookup_def scoped_query_def Let_def getAttribute_def
        empty_id_div_def setAttribute_def removeAttribute_def update_def run_query_def
        example_host_def first_of_def)

section \<open>Properties of \<^verbatim>\<open>create\<close>\<close>

lemma create_list:
  "parse_markup h (''shy;'' @ list_markup) = [Text ''shy;'', list_tree] \<Longrightarrow>
     DOM_create h sandbox_world fresh_heap (CString list_markup) =
       (Inr (ACollection \<lparr>c_nodes = [VRef 0], c_length = 1\<rparr>), parsed_world, heap_created)"
  by (simp add: DOM_create_def list_markup_def sandbox_parse_def sandbox_world_def update_def
        sandbox_index_def list_tree_def DOMElementCollection_new_def DOMElement_wrap_def
        fresh_heap_def alloc_def parsed_world_def heap_created_def)

lemma quick_li: "rquickExpr_exec h ''li'' = Some (QuickTag ''li'')"
  by (simp add: rquickExpr_exec_def is_word_char_def)

lemma lower_li: "toLowerCase ''LI'' = ''li''" "toLowerCase ''li'' = ''li''" "toLowerCase ''UL'' = ''ul''"
  by (simp_all add: toLowerCase_def lower_char_def)

lemma items_by_tag:
  "getElementsByTagName parsed_world (1, [0]) ''li'' = [(1, [0, 0]), (1, [0, 1])]"
  by (simp add: getElementsByTagName_def descendants_def lookup_def list_tree_def bare_def
        lower_li parsed_world_def)

lemma findAll_li:
  "DOMNode_findAll h parsed_world heap_created (1, [0]) (VStr ''li'') =
     (Inr (ACollection \<lparr>c_nodes = [VRef 1, VRef 2], c_length = 2\<rparr>), parsed_world, heap_found)"
  by (simp add: DOMNode_findAll_def DOMNode_find_def find_elements_def quick_li quick_elements_def
        items_by_tag wrap_elements_def DOMElementCollection_new_def DOMElement_wrap_def alloc_def
        heap_created_def heap_found_def numeral_2_eq_2 numeral_3_eq_3 del: One_nat_def)

lemma item_texts: "map (text_of parsed_world heap_found) [VRef 1, VRef 2] = [''a'', ''b'']"
  by (simp add: text_of_def heap_found_def new_wrapper_def lookup_def parsed_world_def
        list_tree_def textContent_def)

lemma collection_has_no_findAll:
  "call_method DOMElementCollection_chain this ''findAll'' args = Throws TypeError"
  by (simp add: call_method_def DOMElementCollection_chain_def DOMElementCollection_prototype_def
        DOMElementCollection_methods_def Object_prototype_def)

lemma parsing_host_parses:
  "parse_markup parsing_host (''shy;'' @ list_markup) = [Text ''shy;'', list_tree]"
  by (simp add: parsing_host_def)

text \<open>
  Claim C9, as stated, fails at its second step: \<^verbatim>\<open>create\<close> of a markup string returns
  a \<^verbatim>\<open>DOMElementCollection\<close> (here of one element, the list), and a collection has no
  \<^verbatim>\<open>findAll\<close>, so the call throws.
\<close>

theorem findAll_on_created_collection_counterexample:
  "fst (DOM_create parsing_host sandbox_world fresh_heap (CString list_markup)) =
     Inr (ACollection \<lparr>c_nodes = [VRef 0], c_length = 1\<rparr>) \<and>
   call_method DOMElementCollection_chain (VRef 0) ''findAll'' [VStr ''li''] = Throws TypeError"
  by (simp add: create_list [OF parsing_host_parses] collection_has_no_findAll)

text \<open>
  Claim C9, amended. On a host whose parser reads the markup as the list it writes,
  \<^verbatim>\<open>create\<close> of the markup yields a collection of length 1 that holds the wrapper of the
  \<^verbatim>\<open>ul\<close> element (the first child of the sandbox); a collection has no \<^verbatim>\<open>findAll\<close>;
  and \<^verbatim>\<open>findAll("li")\<close> on the wrapper of that element yields a collection of length 2
  whose elements are, in document order, the items with the texts \<^verbatim>\<open>a\<close> and \<^verbatim>\<open>b\<close>.
\<close>

theorem create_then_findAll_on_element:
  "parse_markup h (''shy;'' @ list_markup) = [Text ''shy;'', list_tree] \<Longrightarrow>
   (case DOM_create h sandbox_world fresh_heap (CString list_markup) of
      (r, w, hp) \<Rightarrow>
        r = Inr (ACollection \<lparr>c_nodes = [VRef 0], c_length = 1\<rparr>) \<and>
        map_option w_node (objects hp 0) = Some (Some (1, [0])) \<and>
        call_method DOMElementCollection_chain (VRef 0) ''findAll'' [VStr ''li''] = Throws TypeError \<and>
        (case DOMNode_findAll h w hp (1, [0]) (VStr ''li'') of
           (r', w', hp') \<Rightarrow>
             r' = Inr (ACollection \<lparr>c_nodes = [VRef 1, VRef 2], c_length = 2\<rparr>) \<and>
             map (text_of w' hp') [VRef 1, VRef 2] = [''a'', ''b'']))"
proof -
  assume p: "parse_markup h (''shy;'' @ list_markup) = [Text ''shy;'', list_tree]"
  have o: "map_option w_node (objects heap_created 0) = Some (Some (1, [0]))"
    by (simp add: heap_created_def new_wrapper_def)
  show ?thesis
    unfolding create_list [OF p] prod.case findAll_li
    using o item_texts collection_has_no_findAll by simp
qed

theorem create_then_findAll_on_element_witness:
  "parse_markup parsing_host (''shy;'' @ list_markup) = [Text ''shy;'', list_tree] \<and>
   DOM_create parsing_host sandbox_world fresh_heap (CString list_markup) =
     (Inr (ACollection \<lparr>c_nodes = [VRef 0], c_length = 1\<rparr>), parsed_world, heap_created) \<and>
   map_option w_node (objects heap_created 0) = Some (Some (1, [0])) \<and>
   DOMNode_findAll parsing_host parsed_world heap_created (1, [0]) (VStr ''li'') =
     (Inr (ACollection \<lparr>c_nodes = [VRef 1, VRef 2], c_length = 2\<rparr>), parsed_world, heap_found) \<and>
   map (text_of parsed_world heap_found) [VRef 1, VRef 2] = [''a'', ''b'']"
  using create_then_findAll_on_element [OF parsing_host_parses]
  unfolding create_list [OF parsing_host_parses] prod.case findAll_li
  using parsing_host_parses by simp

section \<open>Properties of \<^verbatim>\<open>watch\<close>\<close>

lemma show_nat_digit: "n < 10 \<Longrightarrow> show_nat n = [''0123456789'' ! n]"
  by (simp add: show_nat.simps)

text \<open>A rule that the sheet accepts is appended, and \<^verbatim>\<open>importStyles\<close> does not throw.\<close>

lemma importStyles_string:
  "accepted h sel t \<Longrightarrow>
   DOM_importStyles h sheet [VStr sel, VStr t] = (None, sheet @ new_rules h sel t)"
  by (auto simp: DOM_importStyles_def process_def add_rules_def accepted_def new_rules_def)




text \<open>A selector that names an inherited member is never stored: every call throws.\<close>

lemma watch_behavior_inherited:
  "pg_watchers pg sel = None \<Longrightarrow> inherited h sel = Some b \<Longrightarrow>
   DOM_watch_behavior h pg sel cb = (Some TypeError, pg)"
  by (simp add: DOM_watch_behavior_def read_inherited)



text \<open>
  For a selector that names an inherited member, the first call stores the text of the
  member before its animation name.
\<close>

lemma watch_animation_inherited:
  assumes nm: "nm = ''DOM'' @ show_nat now"
    and w: "isW3Compliant h" and n: "pg_watchers pg sel = None"
    and i: "inherited h sel = Some b" and d: "\<not> bi_discards b"
    and a1: "accepted h (keyframes_selector h nm) keyframes_body"
    and a2: "accepted h sel (animation_styles h (bi_text b @ '','' @ nm))"
  shows "fst (DOM_watch_animation h now pg sel cb) = None \<and>
         pg_watchers (snd (DOM_watch_animation h now pg sel cb)) sel = Some (bi_text b @ '','' @ nm)"
proof -
  from n i have r: "read_property h (pg_watchers pg) sel = Inherited b"
    by (simp add: read_inherited)
  show ?thesis
    unfolding DOM_watch_animation_def Let_def nm [symmetric] r
    using w i d n
    by (simp add: importStyles_string [OF a1] importStyles_string [OF a2, simplified] write_property_def)
qed


lemma example_host_facts:
  "isW3Compliant example_host" "inherited example_host ''li'' = None"
  "accepted example_host sel t" "has_cssRules example_host"
  by (simp_all add: example_host_def accepted_def Object_members_eq)





text \<open>
  The selector \<^verbatim>\<open>constructor\<close>, which matches the elements of that name: on the host
  with \<^verbatim>\<open>addBehavior\<close> the call throws and stores nothing; on the other host the call
  stores the text of the function \<^verbatim>\<open>Object\<close> as the first animation name.
\<close>

lemma watch_inherited_selector:
  "DOM_watch_behavior behavior_host blank_page ''constructor'' (VFun 1) =
     (Some TypeError, blank_page) \<and>
   fst (DOM_watch_animation example_host 1 blank_page ''constructor'' (VFun 1)) = None \<and>
   pg_watchers (snd (DOM_watch_animation example_host 1 blank_page ''constructor'' (VFun 1)))
     ''constructor'' = Some ''function Object() { [native code] },DOM1''"
proof -
  have b: "inherited behavior_host ''constructor'' = Some (native_function ''Object'')"
    by (simp add: behavior_host_def example_host_def Object_members_eq)
  have e: "inherited example_host ''constructor'' = Some (native_function ''Object'')"
    by (simp add: example_host_def Object_members_eq)
  have n: "pg_watchers blank_page ''constructor'' = None"
    by (simp add: blank_page_def)
  have d: "\<not> bi_discards (native_function ''Object'')"
    by (simp add: native_function_def)
  show ?thesis
    using watch_behavior_inherited [where cb = "VFun 1", OF n b]
      watch_animation_inherited [where cb = "VFun 1", OF refl example_host_facts(1) n e d
        example_host_facts(3) example_host_facts(3)]
    by (simp add: native_function_def show_nat_digit)
qed




end
